theory Spec2Isabelle
  imports Main "HOL-Library.Word" "HOL-Library.Signed_Division" "HOL-Library.Char_ord"
    "HOL-Library.List_Lexorder"
begin

section \<open>Package pair: currency pairs and their formatting\<close>

text \<open>
  The store and the venue client import \<^verbatim>\<open>currency/pair\<close>, which is not among the
  sources at hand. A \<^verbatim>\<open>CurrencyItem\<close> is a Go string type. A \<^verbatim>\<open>CurrencyPair\<close> is a struct
  whose fields \<^verbatim>\<open>FirstCurrency\<close> and \<^verbatim>\<open>SecondCurrency\<close> the store reads directly.
\<close>

type_synonym CurrencyItem = string

record CurrencyPair =
  Delimiter :: string
  FirstCurrency :: CurrencyItem
  SecondCurrency :: CurrencyItem

text \<open>
  Modelled from the spec: the accessors \<^verbatim>\<open>GetFirstCurrency\<close> and \<^verbatim>\<open>GetSecondCurrency\<close> of
  the absent package \<^verbatim>\<open>pair\<close>; a currency pair is the ordered pair (baseSymbol,
  quoteSymbol), and the accessors return its two components.
\<close>

definition GetFirstCurrency :: "CurrencyPair \<Rightarrow> CurrencyItem" where
  "GetFirstCurrency c = FirstCurrency c"

definition GetSecondCurrency :: "CurrencyPair \<Rightarrow> CurrencyItem" where
  "GetSecondCurrency c = SecondCurrency c"

text \<open>
  The formatting functions of the absent package are parameters of the model:
  \<^verbatim>\<open>p.FormatPair(delimiter, uppercase)\<close>, \<^verbatim>\<open>c.Lower()\<close> and \<^verbatim>\<open>p.Pair().String()\<close>.
\<close>

record Codec =
  FormatPair :: "CurrencyPair \<Rightarrow> string \<Rightarrow> bool \<Rightarrow> CurrencyPair"
  Lower :: "CurrencyItem \<Rightarrow> CurrencyItem"
  PairString :: "CurrencyPair \<Rightarrow> string"

section \<open>Package orderbook\<close>

text \<open>
  A \<^verbatim>\<open>float64\<close> is kept as its 64-bit pattern: the store copies amounts and prices and
  never computes with them. A \<^verbatim>\<open>time.Time\<close> is an instant on an integer time line whose
  zero value is 0. A Go \<^verbatim>\<open>error\<close> built by \<^verbatim>\<open>errors.New\<close> or \<^verbatim>\<open>fmt.Errorf\<close> is its message;
  the nil error is \<open>None\<close>.
\<close>

type_synonym float64 = "64 word"
type_synonym Time = int
type_synonym error = string

definition ErrOrderbookForExchangeNotFound :: string where
  "ErrOrderbookForExchangeNotFound = ''Orderbook for exchange does not exist.''"

definition ErrPrimaryCurrencyNotFound :: string where
  "ErrPrimaryCurrencyNotFound = ''Error primary currency for orderbook not found.''"

definition ErrSecondaryCurrencyNotFound :: string where
  "ErrSecondaryCurrencyNotFound = ''Error secondary currency for orderbook not found.''"

definition Spot :: string where
  "Spot = ''SPOT''"

record Item =
  Amount :: float64
  Price :: float64

record Base =
  Pair :: CurrencyPair
  CurrencyPair :: string
  Bids :: "Item list"
  Asks :: "Item list"
  LastUpdated :: Time

text \<open>The zero value \<^verbatim>\<open>Base{}\<close>: empty strings, nil slices, the zero time.\<close>

definition zeroCurrencyPair :: CurrencyPair where
  "zeroCurrencyPair = \<lparr>Delimiter = [], FirstCurrency = [], SecondCurrency = []\<rparr>"

definition zeroBase :: Base where
  "zeroBase = \<lparr>Pair = zeroCurrencyPair, CurrencyPair = [], Bids = [], Asks = [],
     LastUpdated = 0\<rparr>"

text \<open>
  The struct \<^verbatim>\<open>Orderbooks\<close> holds a mutex and the three-level map. The model is
  sequential, one call at a time, so the mutex has no field here. The outer map is the
  allocated map \<^verbatim>\<open>Init\<close> makes. An inner map is present only under a key that was
  assigned; reading a missing key gives Go's zero value (a nil map, or \<^verbatim>\<open>Base{}\<close>), and
  assigning into a nil inner map panics.
\<close>

record Orderbooks =
  orderbooks :: "CurrencyItem \<rightharpoonup> (CurrencyItem \<rightharpoonup> (string \<rightharpoonup> Base))"

definition Init :: Orderbooks where
  "Init = \<lparr>orderbooks = Map.empty\<rparr>"

definition formatCurrencyPair :: "Codec \<Rightarrow> CurrencyPair \<Rightarrow> CurrencyPair" where
  "formatCurrencyPair cd p = FormatPair cd p ''/'' False"

definition formatCurrency :: "Codec \<Rightarrow> CurrencyItem \<Rightarrow> CurrencyItem" where
  "formatCurrency cd currency = Lower cd currency"

definition FirstCurrencyExists :: "Codec \<Rightarrow> Orderbooks \<Rightarrow> CurrencyItem \<Rightarrow> bool" where
  "FirstCurrencyExists cd ob currency =
     (case orderbooks ob (formatCurrency cd currency) of
        Some _ \<Rightarrow> True
      | None \<Rightarrow> False)"

definition SecondCurrencyExists :: "Codec \<Rightarrow> Orderbooks \<Rightarrow> CurrencyPair \<Rightarrow> bool" where
  "SecondCurrencyExists cd ob p =
     (let fp = formatCurrencyPair cd p in
      case orderbooks ob (GetFirstCurrency fp) of
        Some a \<Rightarrow> (case a (GetSecondCurrency fp) of Some _ \<Rightarrow> True | None \<Rightarrow> False)
      | None \<Rightarrow> False)"

text \<open>
  The read \<^verbatim>\<open>o.orderbooks[first][second][orderbookType]\<close>: a missing key at any level
  yields the zero value of the next level, so the whole read yields \<^verbatim>\<open>Base{}\<close>.
\<close>

definition index3 :: "Orderbooks \<Rightarrow> CurrencyItem \<Rightarrow> CurrencyItem \<Rightarrow> string \<Rightarrow> Base" where
  "index3 ob first second orderbookType =
     (case orderbooks ob first of
        None \<Rightarrow> zeroBase
      | Some a \<Rightarrow>
          (case a second of
             None \<Rightarrow> zeroBase
           | Some b \<Rightarrow> (case b orderbookType of None \<Rightarrow> zeroBase | Some x \<Rightarrow> x)))"

text \<open>
  \<^verbatim>\<open>GetOrderbook\<close> returns the pair (Base, error) of the Go function. Its first
  parameter is the blank identifier in the source.
\<close>

definition GetOrderbook ::
  "Codec \<Rightarrow> Orderbooks \<Rightarrow> string \<Rightarrow> CurrencyPair \<Rightarrow> string \<Rightarrow> Base \<times> error option" where
  "GetOrderbook cd ob blank p orderbookType =
     (let fp = formatCurrencyPair cd p in
      if \<not> FirstCurrencyExists cd ob (GetFirstCurrency fp) then
        (zeroBase, Some ErrPrimaryCurrencyNotFound)
      else if \<not> SecondCurrencyExists cd ob fp then
        (zeroBase,
         Some (ErrSecondaryCurrencyNotFound @ ''-'' @ GetFirstCurrency fp @ ''-'' @
               GetSecondCurrency fp))
      else
        (index3 ob (GetFirstCurrency fp) (GetSecondCurrency fp) orderbookType, None))"

text \<open>
  \<^verbatim>\<open>ProcessOrderbook\<close> mutates the store; the model returns the new store, or \<open>None\<close>
  where the Go code panics with an assignment to an entry in a nil map. The reading of
  the clock, \<^verbatim>\<open>time.Now()\<close>, is the parameter \<open>now\<close>.
\<close>

definition ProcessOrderbook ::
  "Codec \<Rightarrow> Time \<Rightarrow> Orderbooks \<Rightarrow> string \<Rightarrow> CurrencyPair \<Rightarrow> Base \<Rightarrow> string \<Rightarrow>
   Orderbooks option" where
  "ProcessOrderbook cd now ob blank p orderbookNew orderbookType =
     (let fp = formatCurrencyPair cd p;
          orderbookNew = orderbookNew\<lparr>CurrencyPair := PairString cd fp, LastUpdated := now\<rparr>
      in
      if FirstCurrencyExists cd ob (GetFirstCurrency fp) then
        (if \<not> SecondCurrencyExists cd ob fp then
           (case orderbooks ob (FirstCurrency fp) of
              None \<Rightarrow> None
            | Some a \<Rightarrow>
                Some (ob\<lparr>orderbooks := (orderbooks ob)(FirstCurrency fp \<mapsto>
                  a(SecondCurrency fp \<mapsto> [orderbookType \<mapsto> orderbookNew]))\<rparr>))
         else
           (case orderbooks ob (FirstCurrency fp) of
              None \<Rightarrow> None
            | Some a \<Rightarrow>
                (case a (SecondCurrency fp) of
                   None \<Rightarrow> None
                 | Some b \<Rightarrow>
                     Some (ob\<lparr>orderbooks := (orderbooks ob)(FirstCurrency fp \<mapsto>
                       a(SecondCurrency fp \<mapsto> b(orderbookType \<mapsto> orderbookNew)))\<rparr>))))
      else
        Some (ob\<lparr>orderbooks := (orderbooks ob)(FirstCurrency fp \<mapsto>
          [SecondCurrency fp \<mapsto> [orderbookType \<mapsto> orderbookNew]])\<rparr>))"

subsection \<open>A case-folding codec\<close>

text \<open>
  Modelled from the spec: the formatting of the absent package \<^verbatim>\<open>pair\<close>, as one concrete
  codec. The spec describes the canonical form as one with a fixed delimiter and a fixed
  case, and asks the codec for a lowercase operation on a single symbol. Here
  \<^verbatim>\<open>FormatPair\<close> sets the delimiter and folds both symbols to the case its flag names,
  \<^verbatim>\<open>Lower\<close> folds ASCII letters to lower case, and \<^verbatim>\<open>Pair().String()\<close> joins the two
  symbols with the delimiter. The theorems below hold for every codec that is canonical;
  this one shows that such codecs exist and is the instance they are exercised at.
\<close>

fun lowerChar :: "char \<Rightarrow> char" where
  "lowerChar (Char b0 b1 b2 b3 b4 b5 b6 b7) =
     (let n = (of_char (Char b0 b1 b2 b3 b4 b5 b6 b7) :: nat) in
      if 65 \<le> n \<and> n \<le> 90 then Char b0 b1 b2 b3 b4 True b6 b7
      else Char b0 b1 b2 b3 b4 b5 b6 b7)"

fun upperChar :: "char \<Rightarrow> char" where
  "upperChar (Char b0 b1 b2 b3 b4 b5 b6 b7) =
     (let n = (of_char (Char b0 b1 b2 b3 b4 b5 b6 b7) :: nat) in
      if 97 \<le> n \<and> n \<le> 122 then Char b0 b1 b2 b3 b4 False b6 b7
      else Char b0 b1 b2 b3 b4 b5 b6 b7)"

definition caseFoldFormatPair :: "CurrencyPair \<Rightarrow> string \<Rightarrow> bool \<Rightarrow> CurrencyPair" where
  "caseFoldFormatPair p delimiter uppercase =
     \<lparr>Delimiter = delimiter,
      FirstCurrency = map (if uppercase then upperChar else lowerChar) (FirstCurrency p),
      SecondCurrency = map (if uppercase then upperChar else lowerChar) (SecondCurrency p)\<rparr>"

definition caseFoldCodec :: Codec where
  "caseFoldCodec =
     \<lparr>FormatPair = caseFoldFormatPair,
      Lower = map lowerChar,
      PairString = (\<lambda>p. FirstCurrency p @ Delimiter p @ SecondCurrency p)\<rparr>"

text \<open>
  A second codec, for contrast: its \<^verbatim>\<open>FormatPair\<close> sets the delimiter and folds to upper
  case when its flag says so, and leaves the case alone otherwise. The spec leaves open
  whether the flag \<^verbatim>\<open>false\<close> of the store's formatting folds the case.
\<close>

definition keepCaseFormatPair :: "CurrencyPair \<Rightarrow> string \<Rightarrow> bool \<Rightarrow> CurrencyPair" where
  "keepCaseFormatPair p delimiter uppercase =
     \<lparr>Delimiter = delimiter,
      FirstCurrency = (if uppercase then map upperChar (FirstCurrency p) else FirstCurrency p),
      SecondCurrency = (if uppercase then map upperChar (SecondCurrency p) else SecondCurrency p)\<rparr>"

definition keepCaseCodec :: Codec where
  "keepCaseCodec =
     \<lparr>FormatPair = keepCaseFormatPair,
      Lower = map lowerChar,
      PairString = (\<lambda>p. FirstCurrency p @ Delimiter p @ SecondCurrency p)\<rparr>"

subsection \<open>Canonical codecs, nested lookup, runs of upserts\<close>

text \<open>
  A codec is canonical when formatting a formatted pair changes nothing and the base
  symbol of a formatted pair is already in the form \<^verbatim>\<open>formatCurrency\<close> produces. The
  store formats a pair once in \<^verbatim>\<open>GetOrderbook\<close> and \<^verbatim>\<open>ProcessOrderbook\<close>, a second time
  in \<^verbatim>\<open>SecondCurrencyExists\<close>, and lowers the base in \<^verbatim>\<open>FirstCurrencyExists\<close>; these
  are the two facts that make the three agree on the keys.
\<close>

definition canonical :: "Codec \<Rightarrow> bool" where
  "canonical cd =
     (\<forall>p. formatCurrencyPair cd (formatCurrencyPair cd p) = formatCurrencyPair cd p \<and>
          formatCurrency cd (FirstCurrency (formatCurrencyPair cd p)) =
            FirstCurrency (formatCurrencyPair cd p))"

text \<open>The entry of the nested map under a key triple, if all three levels have it.\<close>

definition lookup3 :: "Orderbooks \<Rightarrow> CurrencyItem \<Rightarrow> CurrencyItem \<Rightarrow> string \<Rightarrow> Base option" where
  "lookup3 ob first second orderbookType =
     (case orderbooks ob first of
        None \<Rightarrow> None
      | Some a \<Rightarrow> (case a second of None \<Rightarrow> None | Some b \<Rightarrow> b orderbookType))"

text \<open>A sequence of \<^verbatim>\<open>ProcessOrderbook\<close> calls, each with its own reading of the clock.\<close>

fun ProcessOrderbooks ::
  "Codec \<Rightarrow> Orderbooks \<Rightarrow> (Time \<times> string \<times> CurrencyPair \<times> Base \<times> string) list \<Rightarrow>
   Orderbooks option" where
  "ProcessOrderbooks cd ob [] = Some ob"
| "ProcessOrderbooks cd ob ((now, name, p, orderbookNew, orderbookType) # calls) =
     (case ProcessOrderbook cd now ob name p orderbookNew orderbookType of
        None \<Rightarrow> None
      | Some ob' \<Rightarrow> ProcessOrderbooks cd ob' calls)"

text \<open>The snapshot \<^verbatim>\<open>ProcessOrderbook\<close> stores: the input with two fields overwritten.\<close>

definition stored :: "Codec \<Rightarrow> Time \<Rightarrow> CurrencyPair \<Rightarrow> Base \<Rightarrow> Base" where
  "stored cd now p orderbookNew =
     orderbookNew\<lparr>CurrencyPair := PairString cd (formatCurrencyPair cd p), LastUpdated := now\<rparr>"

text \<open>A snapshot with one bid, told apart by its amount.\<close>

definition exampleBook :: "64 word \<Rightarrow> Base" where
  "exampleBook x = \<lparr>Pair = zeroCurrencyPair, CurrencyPair = ''stale'',
     Bids = [\<lparr>Amount = x, Price = 1\<rparr>], Asks = [], LastUpdated = 0\<rparr>"

section \<open>Package binance\<close>

subsection \<open>Standard library: query strings, hex, decimal numbers\<close>

text \<open>
  A Go string is a sequence of bytes, as is an Isabelle \<open>string\<close>; \<^verbatim>\<open>[]byte(s)\<close> keeps the
  bytes. \<^verbatim>\<open>url.Values\<close> is a map from a key to a list of values; it is kept as an
  association list with one entry per key, since \<^verbatim>\<open>Encode\<close> walks the keys in sorted
  order. \<^verbatim>\<open>Values.Set\<close> replaces the values of a key by one value. \<^verbatim>\<open>http.Header\<close> is
  a map, read by key only.
\<close>

type_synonym bytes = string
type_synonym Values = "(string \<times> string list) list"
type_synonym Header = "string \<rightharpoonup> string list"

fun Values_Set :: "Values \<Rightarrow> string \<Rightarrow> string \<Rightarrow> Values" where
  "Values_Set [] key val = [(key, [val])]"
| "Values_Set ((k, vs) # v) key val =
     (if k = key then (key, [val]) # v else (k, vs) # Values_Set v key val)"

text \<open>
  \<^verbatim>\<open>url.QueryEscape\<close>: letters, digits and the four marks \<^verbatim>\<open>- _ . ~\<close> stand for
  themselves, a space becomes \<^verbatim>\<open>+\<close>, every other byte becomes \<^verbatim>\<open>%XX\<close> in upper-case hex.
\<close>

definition shouldEscape :: "char \<Rightarrow> bool" where
  "shouldEscape c =
     (let n = (of_char c :: nat) in
      \<not> ((97 \<le> n \<and> n \<le> 122) \<or> (65 \<le> n \<and> n \<le> 90) \<or> (48 \<le> n \<and> n \<le> 57) \<or>
         c = CHR ''-'' \<or> c = CHR ''_'' \<or> c = CHR ''.'' \<or> c = CHR ''~''))"

definition upperhex :: string where
  "upperhex = ''0123456789ABCDEF''"

definition hextable :: string where
  "hextable = ''0123456789abcdef''"

definition escapeByte :: "char \<Rightarrow> string" where
  "escapeByte c =
     (if c = CHR '' '' then ''+''
      else if shouldEscape c then
        [CHR ''%'', upperhex ! ((of_char c :: nat) div 16), upperhex ! ((of_char c :: nat) mod 16)]
      else [c])"

definition QueryEscape :: "string \<Rightarrow> string" where
  "QueryEscape s = concat (map escapeByte s)"

text \<open>
  \<^verbatim>\<open>Values.Encode\<close>: the pairs \<^verbatim>\<open>key=value\<close>, both escaped, joined by \<^verbatim>\<open>&\<close>, keys in
  the byte order of \<^verbatim>\<open>sort.Strings\<close>.
\<close>

fun join :: "string list \<Rightarrow> string \<Rightarrow> string" where
  "join [] sep = []"
| "join [x] sep = x"
| "join (x # y # xs) sep = x @ sep @ join (y # xs) sep"

definition Values_Encode :: "Values \<Rightarrow> string" where
  "Values_Encode v =
     join (concat (map (\<lambda>k. map (\<lambda>val. QueryEscape k @ ''='' @ QueryEscape val)
                                (case map_of v k of None \<Rightarrow> [] | Some vs \<Rightarrow> vs))
                       (sort (map fst v)))) ''&''"

text \<open>\<^verbatim>\<open>hex.EncodeToString\<close>: two lower-case hex digits per byte.\<close>

definition EncodeToString :: "bytes \<Rightarrow> string" where
  "EncodeToString src =
     concat (map (\<lambda>c. [hextable ! ((of_char c :: nat) div 16),
                        hextable ! ((of_char c :: nat) mod 16)]) src)"

text \<open>
  Decimal numbers as \<^verbatim>\<open>strconv.FormatInt(i, 10)\<close> and the verbs \<^verbatim>\<open>%v\<close> and \<^verbatim>\<open>%d\<close> of
  \<^verbatim>\<open>fmt\<close> print them. The arguments are Go's \<^verbatim>\<open>int64\<close> and \<^verbatim>\<open>int\<close>; nothing here
  adds or multiplies them, so they are kept as integers without a bound.
\<close>

fun digits :: "nat \<Rightarrow> string" where
  "digits n = (if n < 10 then [''0123456789'' ! n] else digits (n div 10) @ [''0123456789'' ! (n mod 10)])"

declare digits.simps [simp del]

definition FormatInt :: "int \<Rightarrow> string" where
  "FormatInt i = (if i < 0 then ''-'' @ digits (nat (- i)) else digits (nat i))"

subsection \<open>Constants and data\<close>

definition binanceBaseURL :: string where
  "binanceBaseURL = ''https://www.binance.com/''"

definition binanceExchangeInfoPath :: string where
  "binanceExchangeInfoPath = ''api/v1/exchangeInfo''"

definition binanceAccountPath :: string where
  "binanceAccountPath = ''api/v3/account''"

definition binanceOpenOrdersPath :: string where
  "binanceOpenOrdersPath = ''api/v3/openOrders''"

definition binanceOrderPath :: string where
  "binanceOrderPath = ''api/v3/order''"

definition binanceOrderTestPath :: string where
  "binanceOrderTestPath = ''api/v3/order/test''"

definition binanceDepthPath :: string where
  "binanceDepthPath = ''api/v1/depth''"

definition MethodGet :: string where
  "MethodGet = ''GET''"

definition InvalidTimestampErrCode :: "32 word" where
  "InvalidTimestampErrCode = - 1021"

text \<open>
  \<^verbatim>\<open>RequestCount\<close> is a Go \<^verbatim>\<open>uint\<close>. Its only arithmetic is an increment guarded by
  \<^verbatim>\<open>RequestCount < requestsPerMin\<close>, which cannot wrap, so it is a natural number.
  \<^verbatim>\<open>StartTime\<close> is an \<^verbatim>\<open>int64\<close> of Unix seconds: a 64-bit word, read as signed by
  \<open>sint\<close>, whose subtraction wraps as Go's does.
\<close>

record rateLimitInfo =
  StartTime :: "64 word"
  RequestCount :: nat

text \<open>
  Of the struct \<^verbatim>\<open>Binance\<close> and the \<^verbatim>\<open>exchange.Base\<close> it embeds, the fields the functions
  below read. The map \<^verbatim>\<open>rateLimits\<close> holds pointers that no one else keeps, so it is a
  map to the records themselves; it is assumed allocated.
\<close>

record Binance =
  Name :: string
  Verbose :: bool
  AuthenticatedAPISupport :: bool
  APIKey :: string
  APISecret :: string
  rateLimits :: "string \<rightharpoonup> rateLimitInfo"

text \<open>
  Modelled from the spec: the type \<^verbatim>\<open>ErrorInfo\<close>, declared outside the sources at hand; the
  venue's error envelope is a JSON object with an integer code and a string message. The
  code has the type \<^verbatim>\<open>BinanceErrCode\<close>, an \<^verbatim>\<open>int32\<close>, and \<^verbatim>\<open>int(errInfo.Code)\<close> reads it
  as a signed number.
\<close>

record ErrorInfo =
  Code :: "32 word"
  Message :: string

text \<open>The hash selectors of the absent package \<^verbatim>\<open>common\<close>.\<close>

datatype HashType = HashSHA1 | HashSHA256 | HashSHA512 | HashSHA512_384

text \<open>
  An argument of type \<^verbatim>\<open>interface{}\<close> as reflection sees it: the nil interface, a nil
  pointer of some type, a pointer to a variable of some type that holds a value, or a
  value of any other kind. \<open>'t\<close> stands for Go types, \<open>'v\<close> for the values held.
\<close>

datatype ('t, 'v) iface = NilInterface | NilPointer 't | Pointer 't 'v | Value 't 'v

text \<open>What \<^verbatim>\<open>common.SendHTTPRequest2\<close> is called with.\<close>

record Request =
  Method :: string
  URL :: string
  Headers :: Header
  Body :: "string option"

text \<open>
  What the client calls and does not define: the two readings of the clock
  (\<^verbatim>\<open>time.Now().Unix()\<close>, an \<^verbatim>\<open>int64\<close> kept as a 64-bit word because the limiter
  subtracts from it, and \<^verbatim>\<open>time.Now().UnixNano()\<close>, which is only divided), and of the absent packages
  \<^verbatim>\<open>common\<close> and \<^verbatim>\<open>exchange\<close> the MAC, the HTTP round trip (response body, status, error),
  JSON decoding into the result (it returns the result as the caller sees it afterwards)
  and into an \<^verbatim>\<open>ErrorInfo\<close>, and the message \<^verbatim>\<open>fmt.Errorf\<close> builds from the constant
  \<^verbatim>\<open>WarningAuthenticatedRequestWithoutCredentialsSet\<close> and the exchange's name. The last
  field is the assignability of Go types that \<^verbatim>\<open>reflect.Value.Set\<close> checks. Logging is
  left out.
\<close>

record ('t, 'v) Env =
  Unix :: "64 word"
  UnixNano :: int
  GetHMAC :: "HashType \<Rightarrow> bytes \<Rightarrow> bytes \<Rightarrow> bytes"
  SendHTTPRequest2 :: "string \<Rightarrow> string \<Rightarrow> Header \<Rightarrow> string option \<Rightarrow> string \<times> int \<times> error option"
  JSONDecode :: "string \<Rightarrow> ('t, 'v) iface \<Rightarrow> ('t, 'v) iface \<times> error option"
  JSONDecodeErrorInfo :: "string \<Rightarrow> ErrorInfo \<times> error option"
  WarningAuthenticatedRequestWithoutCredentialsSet :: "string \<Rightarrow> string"
  AssignableTo :: "'t \<Rightarrow> 't \<Rightarrow> bool"

text \<open>A call returns, or panics; what it wrote before a panic stays written.\<close>

datatype 'a completion = Return 'a | Panic

subsection \<open>Requests\<close>

text \<open>
  \<^verbatim>\<open>SendHTTPRequest\<close>, lines 198 to 208: the payload of a signed call. The division of
  the nanoseconds truncates towards zero, as Go's does.
\<close>

definition signPayload :: "('t, 'v) Env \<Rightarrow> Binance \<Rightarrow> string \<Rightarrow> string" where
  "signPayload env b payload =
     (let recvWindow = 5000;
          timestamp = UnixNano env sdiv (1000 * 1000);
          timeWindow = ''timestamp='' @ FormatInt timestamp @ ''&recvWindow='' @
                       FormatInt recvWindow;
          payload = (if payload \<noteq> [] then payload @ ''&'' @ timeWindow else timeWindow);
          hmac = GetHMAC env HashSHA256 payload (APISecret b)
      in payload @ ''&signature='' @ EncodeToString hmac)"

text \<open>
  \<^verbatim>\<open>SendHTTPRequest\<close>, lines 190 to 222: the method, URL, headers and body handed to
  \<^verbatim>\<open>common.SendHTTPRequest2\<close>.
\<close>

definition buildRequest ::
  "('t, 'v) Env \<Rightarrow> Binance \<Rightarrow> string \<Rightarrow> string \<Rightarrow> Values \<Rightarrow> bool \<Rightarrow> Request" where
  "buildRequest env b method path params sign =
     (let headers = [''Accept'' \<mapsto> [''application/json'']];
          payload = (if length params > 0 then Values_Encode params else []);
          payload = (if sign then signPayload env b payload else payload);
          headers = (if sign then headers(''X-MBX-APIKEY'' \<mapsto> [APIKey b]) else headers)
      in
      if method = MethodGet then
        \<lparr>Method = method, URL = binanceBaseURL @ path @ ''?'' @ payload, Headers = headers,
         Body = None\<rparr>
      else
        \<lparr>Method = method, URL = binanceBaseURL @ path,
         Headers = headers(''Content-Type'' \<mapsto> [''application/x-www-form-urlencoded'']),
         Body = Some payload\<rparr>)"

text \<open>
  \<^verbatim>\<open>SendHTTPRequest\<close> returns the pair (code, error) of the Go function, the result as
  the caller sees it afterwards, and the requests that went to the network.
\<close>

definition SendHTTPRequest ::
  "('t, 'v) Env \<Rightarrow> Binance \<Rightarrow> string \<Rightarrow> string \<Rightarrow> Values \<Rightarrow> bool \<Rightarrow> ('t, 'v) iface \<Rightarrow>
   (int \<times> error option) \<times> ('t, 'v) iface \<times> Request list" where
  "SendHTTPRequest env b method path params sign result =
     (if \<not> AuthenticatedAPISupport b then
        ((0, Some (WarningAuthenticatedRequestWithoutCredentialsSet env (Name b))), result, [])
      else
        let request = buildRequest env b method path params sign;
            (resp, statusCode, err) =
              SendHTTPRequest2 env (Method request) (URL request) (Headers request) (Body request)
        in
        case err of
          Some e \<Rightarrow> ((0, Some e), result, [request])
        | None \<Rightarrow>
            if 200 \<le> statusCode \<and> statusCode \<le> 299 then
              (case JSONDecode env resp result of
                 (result', Some e) \<Rightarrow>
                   ((statusCode, Some ''failed to unmarshal response''), result', [request])
               | (result', None) \<Rightarrow> ((0, None), result', [request]))
            else
              (case JSONDecodeErrorInfo env resp of
                 (errInfo, Some e) \<Rightarrow>
                   ((0, Some ''failed to unmarshal error info''), result, [request])
               | (errInfo, None) \<Rightarrow>
                   ((sint (Code errInfo), Some (Message errInfo)), result, [request])))"

text \<open>\<^verbatim>\<open>FetchMarketData\<close>, lines 167 to 171: the parameters of the depth request.\<close>

definition depthValues :: "string \<Rightarrow> int \<Rightarrow> Values" where
  "depthValues symbol limit =
     (let v = [];
          v = Values_Set v ''symbol'' symbol
      in if limit > - 1 then Values_Set v ''limit'' (FormatInt limit) else v)"

text \<open>
  \<^verbatim>\<open>FetchMarketData\<close>; the type \<^verbatim>\<open>MarketData\<close> is declared outside the sources at hand, so
  its type and zero value are parameters.
\<close>

definition FetchMarketData ::
  "('t, 'v) Env \<Rightarrow> Binance \<Rightarrow> 't \<Rightarrow> 'v \<Rightarrow> string \<Rightarrow> int \<Rightarrow>
   (('t, 'v) iface \<times> error option) \<times> Request list" where
  "FetchMarketData env b MarketDataT zeroMarketData symbol limit =
     (let v = depthValues symbol limit;
          response = Pointer MarketDataT zeroMarketData;
          ((code, err), response, sent) =
            SendHTTPRequest env b MethodGet binanceDepthPath v False response
      in ((response, err), sent))"

subsection \<open>Rate-limited requests\<close>

text \<open>
  \<^verbatim>\<open>SendRateLimitedHTTPRequest\<close>, lines 253 to 257: the entry of the endpoint, a fresh one
  where the map has none.
\<close>

definition lookupRateLimit :: "Binance \<Rightarrow> string \<Rightarrow> rateLimitInfo" where
  "lookupRateLimit b key =
     (case rateLimits b key of
        None \<Rightarrow> \<lparr>StartTime = 0, RequestCount = 0\<rparr>
      | Some rateLimit \<Rightarrow> rateLimit)"

text \<open>
  \<^verbatim>\<open>SendRateLimitedHTTPRequest\<close> returns its completion (the error it returns, or a
  panic), the client with the updated window, the result as the caller sees it and the
  requests that went to the network. In the branch that sets the default,
  \<^verbatim>\<open>reflect.Value.Set\<close> panics on the zero \<^verbatim>\<open>Value\<close> that \<^verbatim>\<open>Elem\<close> of a nil pointer is and
  on a value whose type is not assignable to the variable's.
\<close>

definition SendRateLimitedHTTPRequest ::
  "('t, 'v) Env \<Rightarrow> Binance \<Rightarrow> nat \<Rightarrow> string \<Rightarrow> string \<Rightarrow> Values \<Rightarrow> ('t, 'v) iface \<Rightarrow>
   ('t, 'v) iface \<Rightarrow> error option completion \<times> Binance \<times> ('t, 'v) iface \<times> Request list" where
  "SendRateLimitedHTTPRequest env b requestsPerMin method path params result defaultValue =
     (let rateLimit = lookupRateLimit b (method @ path);
          curTimeStamp = Unix env;
          rateLimit =
            (if StartTime rateLimit = 0 \<or> sint (curTimeStamp - StartTime rateLimit) > 90
             then rateLimit\<lparr>RequestCount := 0, StartTime := curTimeStamp\<rparr>
             else rateLimit)
      in
      if RequestCount rateLimit < requestsPerMin then
        (let rateLimit = rateLimit\<lparr>RequestCount := RequestCount rateLimit + 1\<rparr>;
             b = b\<lparr>rateLimits := (rateLimits b)(method @ path \<mapsto> rateLimit)\<rparr>;
             ((code, err), result, sent) = SendHTTPRequest env b method path params True result
         in (Return err, b, result, sent))
      else
        (let b = b\<lparr>rateLimits := (rateLimits b)(method @ path \<mapsto> rateLimit)\<rparr> in
         case result of
           Pointer rt rv \<Rightarrow>
             (case defaultValue of
                NilInterface \<Rightarrow>
                  (Return (Some ''default value must be not be nil''), b, result, [])
              | NilPointer dt \<Rightarrow> (Panic, b, result, [])
              | Pointer dt dv \<Rightarrow>
                  if AssignableTo env dt rt then (Return None, b, Pointer rt dv, [])
                  else (Panic, b, result, [])
              | Value dt dv \<Rightarrow>
                  if AssignableTo env dt rt then (Return None, b, Pointer rt dv, [])
                  else (Panic, b, result, []))
         | _ \<Rightarrow> (Return (Some ''result must be a non-nil pointer''), b, result, [])))"

text \<open>
  A sequence of calls to one endpoint with one budget; each call has its own clock and
  network, parameters, result and default.
\<close>

fun SendRateLimitedHTTPRequests ::
  "Binance \<Rightarrow> nat \<Rightarrow> string \<Rightarrow> string \<Rightarrow>
   (('t, 'v) Env \<times> Values \<times> ('t, 'v) iface \<times> ('t, 'v) iface) list \<Rightarrow>
   Binance \<times> (error option completion \<times> ('t, 'v) iface \<times> Request list) list" where
  "SendRateLimitedHTTPRequests b requestsPerMin method path [] = (b, [])"
| "SendRateLimitedHTTPRequests b requestsPerMin method path
     ((env, params, result, defaultValue) # calls) =
     (let (r, b', result', sent) =
            SendRateLimitedHTTPRequest env b requestsPerMin method path params result
              defaultValue;
          (b'', rs) = SendRateLimitedHTTPRequests b' requestsPerMin method path calls
      in (b'', (r, result', sent) # rs))"

subsection \<open>Windows of the rate limiter\<close>

text \<open>
  \<^verbatim>\<open>SendRateLimitedHTTPRequest\<close>, lines 260 to 263, as a function of the window and the
  clock: the window after the check for expiry. The difference is the \<^verbatim>\<open>int64\<close> one, which
  wraps, and is compared as a signed number.
\<close>

definition admitWindow :: "rateLimitInfo \<Rightarrow> 64 word \<Rightarrow> rateLimitInfo" where
  "admitWindow w now =
     (if StartTime w = 0 \<or> sint (now - StartTime w) > 90
      then w\<lparr>RequestCount := 0, StartTime := now\<rparr>
      else w)"

text \<open>The window of the endpoint after the first \<open>i\<close> calls of a sequence.\<close>

definition windowAfter ::
  "Binance \<Rightarrow> nat \<Rightarrow> string \<Rightarrow> string \<Rightarrow>
   (('t, 'v) Env \<times> Values \<times> ('t, 'v) iface \<times> ('t, 'v) iface) list \<Rightarrow> nat \<Rightarrow> rateLimitInfo" where
  "windowAfter b n method path calls i =
     lookupRateLimit (fst (SendRateLimitedHTTPRequests b n method path (take i calls)))
       (method @ path)"

text \<open>
  \<^verbatim>\<open>SendRateLimitedHTTPRequest\<close>, lines 267 to 281, as a function of the result and the
  default: how the call completes and the result as the caller sees it afterwards.
\<close>

definition setDefault ::
  "('t, 'v) Env \<Rightarrow> ('t, 'v) iface \<Rightarrow> ('t, 'v) iface \<Rightarrow>
   error option completion \<times> ('t, 'v) iface" where
  "setDefault env result defaultValue =
     (case result of
        Pointer rt rv \<Rightarrow>
          (case defaultValue of
             NilInterface \<Rightarrow> (Return (Some ''default value must be not be nil''), result)
           | NilPointer dt \<Rightarrow> (Panic, result)
           | Pointer dt dv \<Rightarrow>
               if AssignableTo env dt rt then (Return None, Pointer rt dv) else (Panic, result)
           | Value dt dv \<Rightarrow>
               if AssignableTo env dt rt then (Return None, Pointer rt dv) else (Panic, result))
      | _ \<Rightarrow> (Return (Some ''result must be a non-nil pointer''), result))"

subsection \<open>A client, an environment and some calls\<close>

text \<open>
  Concrete data the theorems are exercised at. The network of this environment answers
  every request with status 418 and an error envelope; its MAC is two fixed bytes; Go
  types are named by strings and assignable when equal.
\<close>

definition exampleEnv :: "(string, string) Env" where
  "exampleEnv =
     \<lparr>Unix = 1500000000,
      UnixNano = 1500000000123456789,
      GetHMAC = (\<lambda>h msg key. if h = HashSHA256 then [CHR 0xAB, CHR 0x01] else []),
      SendHTTPRequest2 = (\<lambda>method url headers body. (''envelope'', 418, None)),
      JSONDecode = (\<lambda>resp result.
        case result of
          Pointer t v \<Rightarrow> if resp = ''garbage'' then (result, Some ''invalid character'')
                         else (Pointer t resp, None)
        | _ \<Rightarrow> (result, None)),
      JSONDecodeErrorInfo = (\<lambda>resp.
        if resp = ''envelope''
        then (\<lparr>Code = - 1021, Message = ''Timestamp for this request is outside of the recvWindow.''\<rparr>, None)
        else (\<lparr>Code = 0, Message = []\<rparr>, Some ''invalid character'')),
      WarningAuthenticatedRequestWithoutCredentialsSet = (\<lambda>name. name @ '' has no credentials''),
      AssignableTo = (\<lambda>dt rt. dt = rt)\<rparr>"

definition exampleBinance :: Binance where
  "exampleBinance =
     \<lparr>Name = ''Binance'', Verbose = False, AuthenticatedAPISupport = True,
      APIKey = ''key'', APISecret = ''secret'', rateLimits = Map.empty\<rparr>"

text \<open>A client whose account endpoint has used a budget of three, ten seconds ago.\<close>

definition exhaustedBinance :: Binance where
  "exhaustedBinance =
     exampleBinance\<lparr>rateLimits :=
       [''GETapi/v3/account'' \<mapsto> \<lparr>StartTime = 1499999990, RequestCount = 3\<rparr>]\<rparr>"

text \<open>A call at a given reading of the clock, and four of them within forty seconds.\<close>

definition callAt ::
  "64 word \<Rightarrow> (string, string) Env \<times> Values \<times> (string, string) iface \<times> (string, string) iface" where
  "callAt now =
     (exampleEnv\<lparr>Unix := now\<rparr>, [], Pointer ''AccountInfo'' ''old'',
      Value ''AccountInfo'' ''default'')"

definition exampleCalls ::
  "((string, string) Env \<times> Values \<times> (string, string) iface \<times> (string, string) iface) list" where
  "exampleCalls = [callAt 1500000000, callAt 1500000010, callAt 1500000020, callAt 1500000030]"

text \<open>
  Three more sequences: one whose fourth call passes a result that is not a pointer, one
  of two calls at the reading 0 of the clock, and one whose first call reads the least
  \<^verbatim>\<open>int64\<close> from the clock.
\<close>

definition badCalls ::
  "((string, string) Env \<times> Values \<times> (string, string) iface \<times> (string, string) iface) list" where
  "badCalls =
     [callAt 1500000000, callAt 1500000010, callAt 1500000020,
      (exampleEnv\<lparr>Unix := 1500000030\<rparr>, [], Value ''AccountInfo'' ''old'',
       Value ''AccountInfo'' ''default'')]"

definition epochCalls ::
  "((string, string) Env \<times> Values \<times> (string, string) iface \<times> (string, string) iface) list" where
  "epochCalls = [callAt 0, callAt 0]"

definition wrapCalls ::
  "((string, string) Env \<times> Values \<times> (string, string) iface \<times> (string, string) iface) list" where
  "wrapCalls = [callAt (- 9223372036854775808), callAt 1500000000]"

section \<open>The order-book store\<close>

lemma lowerChar_idem: "lowerChar (lowerChar c) = lowerChar c"
  by (cases c) (auto simp: Let_def)

lemma canonical_caseFoldCodec: "canonical caseFoldCodec"
  by (simp add: canonical_def caseFoldCodec_def formatCurrencyPair_def formatCurrency_def
      caseFoldFormatPair_def lowerChar_idem)

lemma canonical_idem:
  "canonical cd \<Longrightarrow> formatCurrencyPair cd (formatCurrencyPair cd p) = formatCurrencyPair cd p"
  by (simp add: canonical_def)

lemma canonical_lower:
  "canonical cd \<Longrightarrow>
   Lower cd (FirstCurrency (formatCurrencyPair cd p)) = FirstCurrency (formatCurrencyPair cd p)"
  by (simp add: canonical_def formatCurrency_def)

lemma FirstCurrencyExists_canonical:
  "canonical cd \<Longrightarrow>
   FirstCurrencyExists cd ob (FirstCurrency (formatCurrencyPair cd p)) =
   (orderbooks ob (FirstCurrency (formatCurrencyPair cd p)) \<noteq> None)"
  by (simp add: FirstCurrencyExists_def formatCurrency_def canonical_lower
      split: option.splits)

lemma SecondCurrencyExists_canonical:
  "canonical cd \<Longrightarrow>
   SecondCurrencyExists cd ob (formatCurrencyPair cd p) =
   (\<exists>a b. orderbooks ob (FirstCurrency (formatCurrencyPair cd p)) = Some a \<and>
          a (SecondCurrency (formatCurrencyPair cd p)) = Some b)"
  by (auto simp add: SecondCurrencyExists_def GetFirstCurrency_def GetSecondCurrency_def
      canonical_idem Let_def split: option.splits)

lemma GetOrderbook_canonical:
  "canonical cd \<Longrightarrow>
   GetOrderbook cd ob name p orderbookType =
   (let fp = formatCurrencyPair cd p in
    case orderbooks ob (FirstCurrency fp) of
      None \<Rightarrow> (zeroBase, Some ErrPrimaryCurrencyNotFound)
    | Some a \<Rightarrow>
        (case a (SecondCurrency fp) of
           None \<Rightarrow> (zeroBase, Some (ErrSecondaryCurrencyNotFound @ ''-'' @ FirstCurrency fp @
                      ''-'' @ SecondCurrency fp))
         | Some b \<Rightarrow> (case b orderbookType of None \<Rightarrow> zeroBase | Some x \<Rightarrow> x, None)))"
  by (auto simp add: GetOrderbook_def Let_def FirstCurrencyExists_canonical
      SecondCurrencyExists_canonical index3_def GetFirstCurrency_def GetSecondCurrency_def
      split: option.splits)

lemma ProcessOrderbook_canonical:
  "canonical cd \<Longrightarrow>
   ProcessOrderbook cd now ob name p orderbookNew orderbookType =
   (let fp = formatCurrencyPair cd p;
        a = (case orderbooks ob (FirstCurrency fp) of None \<Rightarrow> Map.empty | Some a \<Rightarrow> a);
        b = (case a (SecondCurrency fp) of None \<Rightarrow> Map.empty | Some b \<Rightarrow> b)
    in Some (ob\<lparr>orderbooks := (orderbooks ob)(FirstCurrency fp \<mapsto>
         a(SecondCurrency fp \<mapsto> b(orderbookType \<mapsto> stored cd now p orderbookNew)))\<rparr>))"
  by (auto simp add: ProcessOrderbook_def Let_def GetFirstCurrency_def
      FirstCurrencyExists_canonical SecondCurrencyExists_canonical stored_def
      split: option.splits)

lemma lookup3_ProcessOrderbook:
  assumes "canonical cd"
    and "ProcessOrderbook cd now ob name p orderbookNew orderbookType = Some ob'"
  shows "lookup3 ob' first second t =
    (if first = FirstCurrency (formatCurrencyPair cd p) \<and>
        second = SecondCurrency (formatCurrencyPair cd p) \<and> t = orderbookType
     then Some (stored cd now p orderbookNew) else lookup3 ob first second t)"
proof -
  have "ob' = (let fp = formatCurrencyPair cd p;
        a = (case orderbooks ob (FirstCurrency fp) of None \<Rightarrow> Map.empty | Some a \<Rightarrow> a);
        b = (case a (SecondCurrency fp) of None \<Rightarrow> Map.empty | Some b \<Rightarrow> b)
    in ob\<lparr>orderbooks := (orderbooks ob)(FirstCurrency fp \<mapsto>
         a(SecondCurrency fp \<mapsto> b(orderbookType \<mapsto> stored cd now p orderbookNew)))\<rparr>)"
    using assms by (simp add: ProcessOrderbook_canonical Let_def)
  then show ?thesis
    by (simp add: Let_def lookup3_def split: option.splits)
qed

lemma GetOrderbook_lookup3:
  assumes "canonical cd"
    and "lookup3 ob (FirstCurrency (formatCurrencyPair cd p))
           (SecondCurrency (formatCurrencyPair cd p)) orderbookType = Some x"
  shows "GetOrderbook cd ob name p orderbookType = (x, None)"
  using assms
  by (auto simp add: GetOrderbook_canonical Let_def lookup3_def split: option.splits)

lemma ProcessOrderbook_total:
  "canonical cd \<Longrightarrow> \<exists>ob'. ProcessOrderbook cd now ob name p orderbookNew orderbookType = Some ob'"
  by (simp add: ProcessOrderbook_canonical Let_def)

lemma ProcessOrderbooks_append:
  "ProcessOrderbooks cd ob (xs @ ys) =
   (case ProcessOrderbooks cd ob xs of None \<Rightarrow> None | Some ob' \<Rightarrow> ProcessOrderbooks cd ob' ys)"
  by (induction xs arbitrary: ob) (auto split: option.splits)

lemma ProcessOrderbooks_total:
  "canonical cd \<Longrightarrow> \<exists>ob'. ProcessOrderbooks cd ob calls = Some ob'"
proof (induction calls arbitrary: ob)
  case Nil
  then show ?case by simp
next
  case (Cons c calls)
  obtain now name p orderbookNew orderbookType where c: "c = (now, name, p, orderbookNew, orderbookType)"
    by (cases c)
  obtain ob1 where "ProcessOrderbook cd now ob name p orderbookNew orderbookType = Some ob1"
    using ProcessOrderbook_total [OF Cons.prems] by blast
  then show ?case
    using Cons.IH [OF Cons.prems, of ob1] by (simp add: c)
qed

lemma lookup3_ProcessOrderbooks_other:
  assumes "canonical cd"
    and "ProcessOrderbooks cd ob calls = Some ob'"
    and "\<forall>(now', name', q, new', t') \<in> set calls.
           \<not> (FirstCurrency (formatCurrencyPair cd q) = first \<and>
              SecondCurrency (formatCurrencyPair cd q) = second \<and> t' = t)"
  shows "lookup3 ob' first second t = lookup3 ob first second t"
  using assms(2,3)
proof (induction calls arbitrary: ob)
  case Nil
  then show ?case by simp
next
  case (Cons c calls)
  obtain now name p orderbookNew orderbookType where c: "c = (now, name, p, orderbookNew, orderbookType)"
    by (cases c)
  obtain ob1 where step: "ProcessOrderbook cd now ob name p orderbookNew orderbookType = Some ob1"
    and rest: "ProcessOrderbooks cd ob1 calls = Some ob'"
    using Cons.prems(1) by (auto simp: c split: option.splits)
  have other: "\<not> (first = FirstCurrency (formatCurrencyPair cd p) \<and>
      second = SecondCurrency (formatCurrencyPair cd p) \<and> t = orderbookType)"
    using Cons.prems(2) by (auto simp: c)
  have "lookup3 ob1 first second t = lookup3 ob first second t"
    using lookup3_ProcessOrderbook [OF assms(1) step, of first second t] other by auto
  moreover have "lookup3 ob' first second t = lookup3 ob1 first second t"
    using Cons.IH [OF rest] Cons.prems(2) by simp
  ultimately show ?case by simp
qed

text \<open>
  C1. After any sequence of \<^verbatim>\<open>ProcessOrderbook\<close> calls, \<^verbatim>\<open>GetOrderbook\<close> with a pair that
  has the same canonical form as the pair of the most recent call for that key triple,
  and with the same book type, returns without error the snapshot that call stored: its
  input with \<^verbatim>\<open>CurrencyPair\<close> and \<^verbatim>\<open>LastUpdated\<close> set. The sequence is any prefix, the
  call, and a suffix with no call for the same triple; the codec is any canonical one.
\<close>

theorem GetOrderbook_after_ProcessOrderbook:
  assumes "canonical cd"
    and "formatCurrencyPair cd p' = formatCurrencyPair cd p"
    and "\<forall>(now', name', q, new', t') \<in> set post.
           \<not> (FirstCurrency (formatCurrencyPair cd q) = FirstCurrency (formatCurrencyPair cd p) \<and>
              SecondCurrency (formatCurrencyPair cd q) = SecondCurrency (formatCurrencyPair cd p) \<and>
              t' = orderbookType)"
  shows "\<exists>ob'. ProcessOrderbooks cd ob (pre @ (now, name, p, orderbookNew, orderbookType) # post)
                 = Some ob' \<and>
               GetOrderbook cd ob' name' p' orderbookType =
                 (orderbookNew\<lparr>CurrencyPair := PairString cd (formatCurrencyPair cd p),
                    LastUpdated := now\<rparr>, None)"
proof -
  obtain ob1 where pre: "ProcessOrderbooks cd ob pre = Some ob1"
    using ProcessOrderbooks_total [OF assms(1)] by blast
  obtain ob2 where step: "ProcessOrderbook cd now ob1 name p orderbookNew orderbookType = Some ob2"
    using ProcessOrderbook_total [OF assms(1)] by blast
  obtain ob3 where post: "ProcessOrderbooks cd ob2 post = Some ob3"
    using ProcessOrderbooks_total [OF assms(1)] by blast
  have run: "ProcessOrderbooks cd ob (pre @ (now, name, p, orderbookNew, orderbookType) # post)
      = Some ob3"
    by (simp add: ProcessOrderbooks_append pre step post)
  have "lookup3 ob2 (FirstCurrency (formatCurrencyPair cd p))
      (SecondCurrency (formatCurrencyPair cd p)) orderbookType =
      Some (stored cd now p orderbookNew)"
    using lookup3_ProcessOrderbook [OF assms(1) step] by simp
  then have "lookup3 ob3 (FirstCurrency (formatCurrencyPair cd p'))
      (SecondCurrency (formatCurrencyPair cd p')) orderbookType =
      Some (stored cd now p orderbookNew)"
    using lookup3_ProcessOrderbooks_other [OF assms(1) post assms(3)] assms(2) by simp
  then have "GetOrderbook cd ob3 name' p' orderbookType = (stored cd now p orderbookNew, None)"
    by (rule GetOrderbook_lookup3 [OF assms(1)])
  then show ?thesis
    using run by (simp add: stored_def)
qed

theorem GetOrderbook_after_ProcessOrderbook_witness:
  "\<exists>ob'. ProcessOrderbooks caseFoldCodec Init
       ([(1, ''binance'', \<lparr>Delimiter = ''_'', FirstCurrency = ''Btc'', SecondCurrency = ''usd''\<rparr>,
          exampleBook 1, ''SPOT'')] @
        (2, ''binance'', \<lparr>Delimiter = ''-'', FirstCurrency = ''BTC'', SecondCurrency = ''USD''\<rparr>,
          exampleBook 2, ''SPOT'') #
        [(3, ''binance'', \<lparr>Delimiter = ''-'', FirstCurrency = ''ETH'', SecondCurrency = ''USD''\<rparr>,
          exampleBook 3, ''SPOT''),
         (4, ''binance'', \<lparr>Delimiter = ''-'', FirstCurrency = ''BTC'', SecondCurrency = ''USD''\<rparr>,
          exampleBook 4, ''MARGIN'')]) = Some ob' \<and>
      GetOrderbook caseFoldCodec ob' ''other''
        \<lparr>Delimiter = [], FirstCurrency = ''btc'', SecondCurrency = ''Usd''\<rparr> ''SPOT'' =
      (\<lparr>Pair = zeroCurrencyPair, CurrencyPair = ''btc/usd'',
         Bids = [\<lparr>Amount = 2, Price = 1\<rparr>], Asks = [], LastUpdated = 2\<rparr>, None)"
proof -
  have variant:
    "formatCurrencyPair caseFoldCodec
       \<lparr>Delimiter = [], FirstCurrency = ''btc'', SecondCurrency = ''Usd''\<rparr> =
     formatCurrencyPair caseFoldCodec
       \<lparr>Delimiter = ''-'', FirstCurrency = ''BTC'', SecondCurrency = ''USD''\<rparr>"
    by (simp add: formatCurrencyPair_def caseFoldCodec_def caseFoldFormatPair_def)
  have later:
    "\<forall>(now', name', q, new', t') \<in> set
        [(3, ''binance'', \<lparr>Delimiter = ''-'', FirstCurrency = ''ETH'', SecondCurrency = ''USD''\<rparr>,
          exampleBook 3, ''SPOT''),
         (4, ''binance'', \<lparr>Delimiter = ''-'', FirstCurrency = ''BTC'', SecondCurrency = ''USD''\<rparr>,
          exampleBook 4, ''MARGIN'')].
       \<not> (FirstCurrency (formatCurrencyPair caseFoldCodec q) =
            FirstCurrency (formatCurrencyPair caseFoldCodec
              \<lparr>Delimiter = ''-'', FirstCurrency = ''BTC'', SecondCurrency = ''USD''\<rparr>) \<and>
          SecondCurrency (formatCurrencyPair caseFoldCodec q) =
            SecondCurrency (formatCurrencyPair caseFoldCodec
              \<lparr>Delimiter = ''-'', FirstCurrency = ''BTC'', SecondCurrency = ''USD''\<rparr>) \<and>
          t' = ''SPOT'')"
    by (simp add: formatCurrencyPair_def caseFoldCodec_def caseFoldFormatPair_def)
  from GetOrderbook_after_ProcessOrderbook [OF canonical_caseFoldCodec variant later,
      where ob = Init and now = 2 and name = "''binance''" and orderbookNew = "exampleBook 2"
        and name' = "''other''"
        and pre = "[(1, ''binance'',
          \<lparr>Delimiter = ''_'', FirstCurrency = ''Btc'', SecondCurrency = ''usd''\<rparr>,
          exampleBook 1, ''SPOT'')]"]
  show ?thesis
    by (simp add: formatCurrencyPair_def caseFoldCodec_def caseFoldFormatPair_def exampleBook_def)
qed

text \<open>
  The hypothesis that the codec is canonical cannot be dropped. The codec that leaves the
  case alone is not canonical, and with it a pair upserted in upper case is stored under
  its upper-case base, which \<^verbatim>\<open>FirstCurrencyExists\<close> then looks for in lower case: the
  lookup of the very same pair fails with the primary-currency error.
\<close>

lemma keepCaseCodec_not_canonical: "\<not> canonical keepCaseCodec"
proof
  assume "canonical keepCaseCodec"
  then have "formatCurrency keepCaseCodec (FirstCurrency (formatCurrencyPair keepCaseCodec
      \<lparr>Delimiter = ''-'', FirstCurrency = ''BTC'', SecondCurrency = ''USD''\<rparr>)) =
    FirstCurrency (formatCurrencyPair keepCaseCodec
      \<lparr>Delimiter = ''-'', FirstCurrency = ''BTC'', SecondCurrency = ''USD''\<rparr>)"
    unfolding canonical_def by blast
  then show False
    by (simp add: formatCurrency_def formatCurrencyPair_def keepCaseCodec_def
        keepCaseFormatPair_def)
qed

lemma keepCaseCodec_roundtrip_fails:
  "\<exists>ob'. ProcessOrderbook keepCaseCodec 1 Init ''binance''
       \<lparr>Delimiter = ''-'', FirstCurrency = ''BTC'', SecondCurrency = ''USD''\<rparr>
       (exampleBook 1) ''SPOT'' = Some ob' \<and>
     GetOrderbook keepCaseCodec ob' ''binance''
       \<lparr>Delimiter = ''-'', FirstCurrency = ''BTC'', SecondCurrency = ''USD''\<rparr> ''SPOT'' =
     (zeroBase, Some ErrPrimaryCurrencyNotFound)"
  by (simp add: ProcessOrderbook_def GetOrderbook_def FirstCurrencyExists_def
      SecondCurrencyExists_def formatCurrency_def formatCurrencyPair_def keepCaseCodec_def
      keepCaseFormatPair_def GetFirstCurrency_def GetSecondCurrency_def Init_def Let_def)

text \<open>
  C4. With a canonical codec, \<^verbatim>\<open>GetOrderbook\<close> returns the primary-currency error exactly
  when the canonical base has no entry; the secondary-currency error, whose message ends
  with the base and the quote, exactly when the base has an entry and the quote has none
  under it; and no error exactly when both have. In the last case a missing book type
  gives the empty snapshot \<^verbatim>\<open>Base{}\<close>, and every error comes with \<^verbatim>\<open>Base{}\<close>.
\<close>

theorem GetOrderbook_errors:
  assumes "canonical cd"
  shows "(let fp = formatCurrencyPair cd p; r = GetOrderbook cd ob name p orderbookType in
     ((snd r = Some ErrPrimaryCurrencyNotFound) = (orderbooks ob (FirstCurrency fp) = None)) \<and>
     ((snd r = Some (ErrSecondaryCurrencyNotFound @ ''-'' @ FirstCurrency fp @ ''-'' @
                    SecondCurrency fp)) =
      (\<exists>a. orderbooks ob (FirstCurrency fp) = Some a \<and> a (SecondCurrency fp) = None)) \<and>
     ((snd r = None) =
      (\<exists>a b. orderbooks ob (FirstCurrency fp) = Some a \<and> a (SecondCurrency fp) = Some b)) \<and>
     ((\<exists>a b. orderbooks ob (FirstCurrency fp) = Some a \<and> a (SecondCurrency fp) = Some b \<and>
            b orderbookType = None) \<longrightarrow> r = (zeroBase, None)) \<and>
     (snd r \<noteq> None \<longrightarrow> fst r = zeroBase))"
  by (auto simp add: GetOrderbook_canonical [OF assms] Let_def ErrPrimaryCurrencyNotFound_def
      ErrSecondaryCurrencyNotFound_def split: option.splits)

theorem GetOrderbook_errors_witness:
  "GetOrderbook caseFoldCodec
     \<lparr>orderbooks = [''btc'' \<mapsto> [''usd'' \<mapsto> [''SPOT'' \<mapsto> exampleBook 1]]]\<rparr> ''binance''
     \<lparr>Delimiter = ''-'', FirstCurrency = ''BTC'', SecondCurrency = ''USD''\<rparr> ''MARGIN'' =
   (zeroBase, None)"
proof -
  let ?ob = "\<lparr>orderbooks = [''btc'' \<mapsto> [''usd'' \<mapsto> [''SPOT'' \<mapsto> exampleBook 1]]]\<rparr>"
  let ?fp = "formatCurrencyPair caseFoldCodec
    \<lparr>Delimiter = ''-'', FirstCurrency = ''BTC'', SecondCurrency = ''USD''\<rparr>"
  have fp: "?fp = \<lparr>Delimiter = ''/'', FirstCurrency = ''btc'', SecondCurrency = ''usd''\<rparr>"
    by (simp add: formatCurrencyPair_def caseFoldCodec_def caseFoldFormatPair_def)
  have miss: "\<exists>a b. orderbooks ?ob (FirstCurrency ?fp) = Some a \<and>
      a (SecondCurrency ?fp) = Some b \<and> b ''MARGIN'' = None"
    by (simp add: fp)
  note t = GetOrderbook_errors [OF canonical_caseFoldCodec, where ob = ?ob
      and p = "\<lparr>Delimiter = ''-'', FirstCurrency = ''BTC'', SecondCurrency = ''USD''\<rparr>"
      and name = "''binance''" and orderbookType = "''MARGIN''", unfolded Let_def]
  show ?thesis
    by (rule t [THEN conjunct2, THEN conjunct2, THEN conjunct2, THEN conjunct1, THEN mp, OF miss])
qed

section \<open>The exchange name is ignored\<close>

text \<open>
  C10. For every store, currency pair, book type and snapshot, the result of
  \<^verbatim>\<open>GetOrderbook\<close> and the store left by \<^verbatim>\<open>ProcessOrderbook\<close> (at one reading of the
  clock) are the same for any two values of the first, exchange-name, argument.
\<close>

theorem exchange_name_ignored:
  "GetOrderbook cd ob name1 p orderbookType = GetOrderbook cd ob name2 p orderbookType \<and>
   ProcessOrderbook cd now ob name1 p orderbookNew orderbookType =
   ProcessOrderbook cd now ob name2 p orderbookNew orderbookType"
  by (simp add: GetOrderbook_def ProcessOrderbook_def)

section \<open>The venue client\<close>

subsection \<open>Decimal numbers\<close>

lemma FormatInt_5000: "FormatInt 5000 = ''5000''"
  by (simp add: FormatInt_def digits.simps)

lemma FormatInt_0: "FormatInt 0 = ''0''"
  by (simp add: FormatInt_def digits.simps)

subsection \<open>Credentials\<close>

text \<open>
  C5. The claim: \<^verbatim>\<open>SendHTTPRequest\<close> fails for lack of credentials only when the call is
  signed. The code tests \<^verbatim>\<open>AuthenticatedAPISupport\<close> before it looks at \<^verbatim>\<open>sign\<close>: without
  credentials an unsigned call, \<^verbatim>\<open>FetchMarketData\<close> among them, returns the
  missing-credentials error and sends nothing.
\<close>

theorem SendHTTPRequest_without_credentials:
  "SendHTTPRequest env (b\<lparr>AuthenticatedAPISupport := False\<rparr>) method path params False result =
     ((0, Some (WarningAuthenticatedRequestWithoutCredentialsSet env (Name b))), result, []) \<and>
   FetchMarketData env (b\<lparr>AuthenticatedAPISupport := False\<rparr>) MarketDataT zeroMarketData symbol limit =
     ((Pointer MarketDataT zeroMarketData,
       Some (WarningAuthenticatedRequestWithoutCredentialsSet env (Name b))), [])"
  by (simp add: SendHTTPRequest_def FetchMarketData_def)

subsection \<open>Responses\<close>

text \<open>
  C7. For a client with credentials, \<^verbatim>\<open>SendHTTPRequest\<close> sends one request and answers by
  what comes back: a transport error is returned as it is; on status 200 to 299 the body
  is decoded into the result, and a decoding failure gives the error
  \<^verbatim>\<open>failed to unmarshal response\<close>; on any other status the body is decoded as an error
  envelope, whose code and message are returned as they are, and a decoding failure
  gives the error \<^verbatim>\<open>failed to unmarshal error info\<close>, on a path where the transport
  reported no error.
\<close>

theorem SendHTTPRequest_response:
  assumes "AuthenticatedAPISupport b"
  shows "(let request = buildRequest env b method path params sign;
              (resp, statusCode, err) =
                SendHTTPRequest2 env (Method request) (URL request) (Headers request) (Body request);
              r = SendHTTPRequest env b method path params sign result
          in
          (\<forall>e. err = Some e \<longrightarrow> r = ((0, Some e), result, [request])) \<and>
          (\<forall>result'. err = None \<and> 200 \<le> statusCode \<and> statusCode \<le> 299 \<and>
             JSONDecode env resp result = (result', None) \<longrightarrow>
             r = ((0, None), result', [request])) \<and>
          (\<forall>result' d. err = None \<and> 200 \<le> statusCode \<and> statusCode \<le> 299 \<and>
             JSONDecode env resp result = (result', Some d) \<longrightarrow>
             r = ((statusCode, Some ''failed to unmarshal response''), result', [request])) \<and>
          (\<forall>errInfo. err = None \<and> \<not> (200 \<le> statusCode \<and> statusCode \<le> 299) \<and>
             JSONDecodeErrorInfo env resp = (errInfo, None) \<longrightarrow>
             r = ((sint (Code errInfo), Some (Message errInfo)), result, [request])) \<and>
          (\<forall>errInfo d. err = None \<and> \<not> (200 \<le> statusCode \<and> statusCode \<le> 299) \<and>
             JSONDecodeErrorInfo env resp = (errInfo, Some d) \<longrightarrow>
             r = ((0, Some ''failed to unmarshal error info''), result, [request])))"
  using assms
  by (auto simp add: SendHTTPRequest_def Let_def split: prod.splits option.splits)

theorem SendHTTPRequest_response_witness:
  "SendHTTPRequest exampleEnv exampleBinance ''GET'' ''api/v1/depth'' [(''symbol'', [''BTCUSDT''])]
     False (Pointer ''MarketData'' ''old'') =
   ((- 1021, Some ''Timestamp for this request is outside of the recvWindow.''),
    Pointer ''MarketData'' ''old'',
    [\<lparr>Method = ''GET'', URL = ''https://www.binance.com/api/v1/depth?symbol=BTCUSDT'',
      Headers = [''Accept'' \<mapsto> [''application/json'']], Body = None\<rparr>])"
proof -
  let ?request = "buildRequest exampleEnv exampleBinance ''GET'' ''api/v1/depth''
    [(''symbol'', [''BTCUSDT''])] False"
  have auth: "AuthenticatedAPISupport exampleBinance"
    by (simp add: exampleBinance_def)
  have request: "?request =
      \<lparr>Method = ''GET'', URL = ''https://www.binance.com/api/v1/depth?symbol=BTCUSDT'',
       Headers = [''Accept'' \<mapsto> [''application/json'']], Body = None\<rparr>"
    by (simp add: buildRequest_def MethodGet_def binanceBaseURL_def Values_Encode_def
        QueryEscape_def escapeByte_def shouldEscape_def)
  have net: "SendHTTPRequest2 exampleEnv (Method ?request) (URL ?request) (Headers ?request)
      (Body ?request) = (''envelope'', 418, None)"
    by (simp add: exampleEnv_def)
  have venue: "None = (None :: error option) \<and> \<not> (200 \<le> (418 :: int) \<and> (418 :: int) \<le> 299) \<and>
      JSONDecodeErrorInfo exampleEnv ''envelope'' =
        (\<lparr>Code = - 1021,
           Message = ''Timestamp for this request is outside of the recvWindow.''\<rparr>, None)"
    by (simp add: exampleEnv_def)
  note t = SendHTTPRequest_response [OF auth, of exampleEnv "''GET''" "''api/v1/depth''"
      "[(''symbol'', [''BTCUSDT''])]" False "Pointer ''MarketData'' ''old''",
      unfolded Let_def net prod.case]
  show ?thesis
    using t [THEN conjunct2, THEN conjunct2, THEN conjunct2, THEN conjunct1, THEN spec,
        THEN mp, OF venue]
    by (simp add: request)
qed

subsection \<open>The depth limit\<close>

lemma depthValues_unspecified: "depthValues symbol (- 1) = [(''symbol'', [symbol])]"
  by (simp add: depthValues_def)

lemma depthValues_zero: "depthValues symbol 0 = [(''symbol'', [symbol]), (''limit'', [''0''])]"
  by (simp add: depthValues_def FormatInt_0)

lemma QueryEscape_word:
  "QueryEscape ''symbol'' = ''symbol''" "QueryEscape ''limit'' = ''limit''" "QueryEscape ''0'' = ''0''"
  by (simp_all add: QueryEscape_def escapeByte_def shouldEscape_def)

lemma sort_symbol_limit: "sort [''symbol'', ''limit''] = [''limit'', ''symbol'']"
  by simp

lemma Values_Encode_unspecified:
  "Values_Encode [(''symbol'', [symbol])] = ''symbol='' @ QueryEscape symbol"
  by (simp add: Values_Encode_def QueryEscape_word)

lemma Values_Encode_zero:
  "Values_Encode [(''symbol'', [symbol]), (''limit'', [''0''])] =
   ''limit=0&symbol='' @ QueryEscape symbol"
  by (simp add: Values_Encode_def QueryEscape_word)

lemma FetchMarketData_sent:
  "AuthenticatedAPISupport b \<Longrightarrow>
   snd (FetchMarketData env b MarketDataT zeroMarketData symbol limit) =
   [buildRequest env b MethodGet binanceDepthPath (depthValues symbol limit) False]"
  by (simp add: FetchMarketData_def SendHTTPRequest_def Let_def split: prod.splits option.splits)

lemma URL_buildRequest_unsigned_get:
  "URL (buildRequest env b MethodGet path params False) =
   binanceBaseURL @ path @ ''?'' @ (if params = [] then [] else Values_Encode params)"
  by (simp add: buildRequest_def)

text \<open>
  C8. For every symbol, \<^verbatim>\<open>FetchMarketData\<close> with limit -1 builds parameters without a
  \<^verbatim>\<open>limit\<close> key, and with limit 0 parameters whose \<^verbatim>\<open>limit\<close> is \<^verbatim>\<open>0\<close>; where the client
  has credentials, so that a request is sent, the two URLs are the depth path with the
  query \<^verbatim>\<open>symbol=S\<close> and \<^verbatim>\<open>limit=0&symbol=S\<close>, and they differ.
\<close>

theorem FetchMarketData_limit:
  "map_of (depthValues symbol (- 1)) ''limit'' = None \<and>
   map_of (depthValues symbol 0) ''limit'' = Some [''0''] \<and>
   (AuthenticatedAPISupport b \<longrightarrow>
      map URL (snd (FetchMarketData env b MarketDataT zeroMarketData symbol (- 1))) =
        [binanceBaseURL @ binanceDepthPath @ ''?symbol='' @ QueryEscape symbol] \<and>
      map URL (snd (FetchMarketData env b MarketDataT zeroMarketData symbol 0)) =
        [binanceBaseURL @ binanceDepthPath @ ''?limit=0&symbol='' @ QueryEscape symbol] \<and>
      map URL (snd (FetchMarketData env b MarketDataT zeroMarketData symbol (- 1))) \<noteq>
      map URL (snd (FetchMarketData env b MarketDataT zeroMarketData symbol 0)))"
  by (simp add: FetchMarketData_sent URL_buildRequest_unsigned_get depthValues_unspecified
      depthValues_zero Values_Encode_unspecified Values_Encode_zero)

theorem FetchMarketData_limit_witness:
  "map URL (snd (FetchMarketData exampleEnv exampleBinance ''MarketData'' [] ''BTC/USDT'' (- 1))) =
     [''https://www.binance.com/api/v1/depth?symbol=BTC%2FUSDT''] \<and>
   map URL (snd (FetchMarketData exampleEnv exampleBinance ''MarketData'' [] ''BTC/USDT'' 0)) =
     [''https://www.binance.com/api/v1/depth?limit=0&symbol=BTC%2FUSDT'']"
proof -
  have auth: "AuthenticatedAPISupport exampleBinance"
    by (simp add: exampleBinance_def)
  have esc: "QueryEscape ''BTC/USDT'' = ''BTC%2FUSDT''"
    by (simp add: QueryEscape_def escapeByte_def shouldEscape_def upperhex_def)
  note t = FetchMarketData_limit [where symbol = "''BTC/USDT''" and b = exampleBinance
      and env = exampleEnv and MarketDataT = "''MarketData''" and zeroMarketData = "[]",
      THEN conjunct2, THEN conjunct2, THEN mp, OF auth]
  show ?thesis
    using t by (simp add: esc binanceBaseURL_def binanceDepthPath_def)
qed

subsection \<open>Signing\<close>

lemma SendHTTPRequest_sent:
  "AuthenticatedAPISupport b \<Longrightarrow>
   snd (snd (SendHTTPRequest env b method path params sign result)) =
   [buildRequest env b method path params sign]"
  by (simp add: SendHTTPRequest_def Let_def split: prod.splits option.splits)

lemma signPayload_eq:
  "signPayload env b payload =
   (if payload \<noteq> [] then payload @ ''&'' else []) @
   ''timestamp='' @ FormatInt (UnixNano env sdiv 1000000) @ ''&recvWindow=5000'' @
   ''&signature='' @
   EncodeToString (GetHMAC env HashSHA256
     ((if payload \<noteq> [] then payload @ ''&'' else []) @
      ''timestamp='' @ FormatInt (UnixNano env sdiv 1000000) @ ''&recvWindow=5000'')
     (APISecret b))"
  by (simp add: signPayload_def Let_def FormatInt_5000)

lemma signPayload_APIKey: "signPayload env (b\<lparr>APIKey := key'\<rparr>) payload = signPayload env b payload"
  by (simp add: signPayload_def)

lemma signPayload_cong:
  "GetHMAC env' = GetHMAC env \<Longrightarrow>
   UnixNano env' sdiv 1000000 = UnixNano env sdiv 1000000 \<Longrightarrow>
   APISecret b' = APISecret b \<Longrightarrow>
   signPayload env' b' payload = signPayload env b payload"
  by (simp add: signPayload_eq)

lemma buildRequest_signed:
  "buildRequest env b method path params True =
   (if method = MethodGet then
      \<lparr>Method = method,
       URL = binanceBaseURL @ path @ ''?'' @
             signPayload env b (if params \<noteq> [] then Values_Encode params else []),
       Headers = [''Accept'' \<mapsto> [''application/json''], ''X-MBX-APIKEY'' \<mapsto> [APIKey b]],
       Body = None\<rparr>
    else
      \<lparr>Method = method, URL = binanceBaseURL @ path,
       Headers = [''Accept'' \<mapsto> [''application/json''], ''X-MBX-APIKEY'' \<mapsto> [APIKey b],
         ''Content-Type'' \<mapsto> [''application/x-www-form-urlencoded'']],
       Body = Some (signPayload env b (if params \<noteq> [] then Values_Encode params else []))\<rparr>)"
  by (simp add: buildRequest_def Let_def)

text \<open>
  C6. A signed call of a client with credentials sends one request. Its payload is the
  encoded parameters, then \<^verbatim>\<open>timestamp=\<close> with the clock in milliseconds and
  \<^verbatim>\<open>recvWindow=5000\<close>, then \<^verbatim>\<open>signature=\<close> with the hex digits of the SHA-256 MAC of all
  that precedes under the API secret; it is the query of the URL for GET and the body
  otherwise. The API key is the header \<^verbatim>\<open>X-MBX-APIKEY\<close>, and the URL and the body are the
  same for every API key. The signed payload is the same whenever the MAC function, the
  millisecond, the payload and the secret are.
\<close>

theorem SendHTTPRequest_signed:
  assumes "AuthenticatedAPISupport b"
  shows "(let payload = (if params \<noteq> [] then Values_Encode params else []);
              timeWindow = ''timestamp='' @ FormatInt (UnixNano env sdiv 1000000) @
                           ''&recvWindow=5000'';
              signed = (if payload \<noteq> [] then payload @ ''&'' @ timeWindow else timeWindow);
              signature = EncodeToString (GetHMAC env HashSHA256 signed (APISecret b));
              full = signed @ ''&signature='' @ signature;
              sent = snd (snd (SendHTTPRequest env b method path params True result))
          in
          sent =
            [if method = MethodGet then
               \<lparr>Method = method, URL = binanceBaseURL @ path @ ''?'' @ full,
                Headers = [''Accept'' \<mapsto> [''application/json''], ''X-MBX-APIKEY'' \<mapsto> [APIKey b]],
                Body = None\<rparr>
             else
               \<lparr>Method = method, URL = binanceBaseURL @ path,
                Headers = [''Accept'' \<mapsto> [''application/json''], ''X-MBX-APIKEY'' \<mapsto> [APIKey b],
                  ''Content-Type'' \<mapsto> [''application/x-www-form-urlencoded'']],
                Body = Some full\<rparr>] \<and>
          map URL (snd (snd (SendHTTPRequest env (b\<lparr>APIKey := key'\<rparr>) method path params True
            result))) = map URL sent \<and>
          map Body (snd (snd (SendHTTPRequest env (b\<lparr>APIKey := key'\<rparr>) method path params True
            result))) = map Body sent \<and>
          (GetHMAC env' = GetHMAC env \<and>
           UnixNano env' sdiv 1000000 = UnixNano env sdiv 1000000 \<and>
           APISecret b' = APISecret b \<longrightarrow>
           signPayload env' b' payload = full))"
proof -
  let ?payload = "if params \<noteq> [] then Values_Encode params else []"
  let ?timeWindow = "''timestamp='' @ FormatInt (UnixNano env sdiv 1000000) @ ''&recvWindow=5000''"
  let ?signed = "if ?payload \<noteq> [] then ?payload @ ''&'' @ ?timeWindow else ?timeWindow"
  let ?full = "?signed @ ''&signature='' @
    EncodeToString (GetHMAC env HashSHA256 ?signed (APISecret b))"
  let ?sent = "snd (snd (SendHTTPRequest env b method path params True result))"
  let ?sent' = "snd (snd (SendHTTPRequest env (b\<lparr>APIKey := key'\<rparr>) method path params True
    result))"
  have key: "AuthenticatedAPISupport (b\<lparr>APIKey := key'\<rparr>)"
    using assms by simp
  have full: "signPayload env b ?payload = ?full"
    by (simp add: signPayload_eq)
  have c1: "?sent =
      [if method = MethodGet then
         \<lparr>Method = method, URL = binanceBaseURL @ path @ ''?'' @ ?full,
          Headers = [''Accept'' \<mapsto> [''application/json''], ''X-MBX-APIKEY'' \<mapsto> [APIKey b]],
          Body = None\<rparr>
       else
         \<lparr>Method = method, URL = binanceBaseURL @ path,
          Headers = [''Accept'' \<mapsto> [''application/json''], ''X-MBX-APIKEY'' \<mapsto> [APIKey b],
            ''Content-Type'' \<mapsto> [''application/x-www-form-urlencoded'']],
          Body = Some ?full\<rparr>]"
    unfolding SendHTTPRequest_sent [OF assms] buildRequest_signed full by (rule refl)
  have c2: "map URL ?sent' = map URL ?sent"
    unfolding SendHTTPRequest_sent [OF assms] SendHTTPRequest_sent [OF key] buildRequest_signed
      signPayload_APIKey by simp
  have c3: "map Body ?sent' = map Body ?sent"
    unfolding SendHTTPRequest_sent [OF assms] SendHTTPRequest_sent [OF key] buildRequest_signed
      signPayload_APIKey by simp
  have c4: "GetHMAC env' = GetHMAC env \<and>
      UnixNano env' sdiv 1000000 = UnixNano env sdiv 1000000 \<and>
      APISecret b' = APISecret b \<longrightarrow> signPayload env' b' ?payload = ?full"
    using signPayload_cong [of env' env b' b ?payload] full by simp
  show ?thesis
    unfolding Let_def using c1 c2 c3 c4 by (intro conjI)
qed

theorem SendHTTPRequest_signed_witness:
  "AuthenticatedAPISupport exampleBinance \<and>
   snd (snd (SendHTTPRequest exampleEnv exampleBinance ''POST'' ''api/v3/order''
     [(''symbol'', [''BTCUSDT''])] True (Pointer ''PostOrderAckResponse'' ''old''))) =
   [\<lparr>Method = ''POST'', URL = ''https://www.binance.com/api/v3/order'',
     Headers = [''Accept'' \<mapsto> [''application/json''], ''X-MBX-APIKEY'' \<mapsto> [''key''],
       ''Content-Type'' \<mapsto> [''application/x-www-form-urlencoded'']],
     Body = Some ''symbol=BTCUSDT&timestamp=1500000000123&recvWindow=5000&signature=ab01''\<rparr>] \<and>
   signPayload (exampleEnv\<lparr>UnixNano := 1500000000123999999\<rparr>) (exampleBinance\<lparr>APIKey := ''other''\<rparr>)
     ''symbol=BTCUSDT'' =
   ''symbol=BTCUSDT&timestamp=1500000000123&recvWindow=5000&signature=ab01''"
proof -
  have h: "AuthenticatedAPISupport exampleBinance"
    by (simp add: exampleBinance_def)
  have enc: "Values_Encode [(''symbol'', [''BTCUSDT''])] = ''symbol=BTCUSDT''"
    by (simp add: Values_Encode_def QueryEscape_def escapeByte_def shouldEscape_def)
  have ms: "(1500000000123456789 :: int) sdiv 1000000 = 1500000000123"
    by (simp add: signed_divide_int_def)
  have ts: "FormatInt 1500000000123 = ''1500000000123''"
    by (simp add: FormatInt_def digits.simps)
  have same: "GetHMAC (exampleEnv\<lparr>UnixNano := 1500000000123999999\<rparr>) = GetHMAC exampleEnv \<and>
      UnixNano (exampleEnv\<lparr>UnixNano := 1500000000123999999\<rparr>) sdiv 1000000 =
        UnixNano exampleEnv sdiv 1000000 \<and>
      APISecret (exampleBinance\<lparr>APIKey := ''other''\<rparr>) = APISecret exampleBinance"
    by (simp add: exampleEnv_def signed_divide_int_def)
  note t = SendHTTPRequest_signed [OF h, of "[(''symbol'', [''BTCUSDT''])]" exampleEnv "''POST''"
      "''api/v3/order''" "Pointer ''PostOrderAckResponse'' ''old''" "''other''"
      "exampleEnv\<lparr>UnixNano := 1500000000123999999\<rparr>"
      "exampleBinance\<lparr>APIKey := ''other''\<rparr>", unfolded Let_def enc]
  have sig: "EncodeToString (GetHMAC exampleEnv HashSHA256 msg (APISecret exampleBinance)) = ''ab01''"
    for msg
    by (simp add: exampleEnv_def EncodeToString_def hextable_def)
  have now: "UnixNano exampleEnv = 1500000000123456789"
    by (simp add: exampleEnv_def)
  have key: "APIKey exampleBinance = ''key''"
    by (simp add: exampleBinance_def)
  have sent: "snd (snd (SendHTTPRequest exampleEnv exampleBinance ''POST'' ''api/v3/order''
      [(''symbol'', [''BTCUSDT''])] True (Pointer ''PostOrderAckResponse'' ''old''))) =
    [\<lparr>Method = ''POST'', URL = ''https://www.binance.com/api/v3/order'',
      Headers = [''Accept'' \<mapsto> [''application/json''], ''X-MBX-APIKEY'' \<mapsto> [''key''],
        ''Content-Type'' \<mapsto> [''application/x-www-form-urlencoded'']],
      Body = Some ''symbol=BTCUSDT&timestamp=1500000000123&recvWindow=5000&signature=ab01''\<rparr>]"
    unfolding t [THEN conjunct1]
    by (simp add: sig now key ms ts MethodGet_def binanceBaseURL_def)
  have other: "signPayload (exampleEnv\<lparr>UnixNano := 1500000000123999999\<rparr>)
      (exampleBinance\<lparr>APIKey := ''other''\<rparr>) ''symbol=BTCUSDT'' =
    ''symbol=BTCUSDT&timestamp=1500000000123&recvWindow=5000&signature=ab01''"
    unfolding t [THEN conjunct2, THEN conjunct2, THEN conjunct2, THEN mp, OF same, simplified]
    by (simp add: sig now ms ts)
  show ?thesis
    using h sent other by simp
qed

subsection \<open>The rate limiter\<close>

lemma SendRateLimitedHTTPRequest_window:
  "lookupRateLimit
     (fst (snd (SendRateLimitedHTTPRequest env b n method path params result defaultValue)))
     (method @ path) =
   (let w = admitWindow (lookupRateLimit b (method @ path)) (Unix env) in
    if RequestCount w < n then w\<lparr>RequestCount := RequestCount w + 1\<rparr> else w)"
  by (simp add: SendRateLimitedHTTPRequest_def admitWindow_def Let_def lookupRateLimit_def
      split: prod.splits iface.splits)

lemma SendRateLimitedHTTPRequest_auth:
  "AuthenticatedAPISupport
     (fst (snd (SendRateLimitedHTTPRequest env b n method path params result defaultValue))) =
   AuthenticatedAPISupport b"
  by (simp add: SendRateLimitedHTTPRequest_def Let_def split: prod.splits iface.splits)

lemma SendRateLimitedHTTPRequest_throttled:
  assumes "\<not> RequestCount (admitWindow (lookupRateLimit b (method @ path)) (Unix env)) < n"
  shows "SendRateLimitedHTTPRequest env b n method path params result defaultValue =
    (fst (setDefault env result defaultValue),
     b\<lparr>rateLimits := (rateLimits b)(method @ path \<mapsto>
        admitWindow (lookupRateLimit b (method @ path)) (Unix env))\<rparr>,
     snd (setDefault env result defaultValue), [])"
  using assms
  by (simp add: SendRateLimitedHTTPRequest_def setDefault_def Let_def admitWindow_def
      split: iface.splits)

lemma SendRateLimitedHTTPRequest_sent:
  assumes "AuthenticatedAPISupport b"
  shows "(snd (snd (snd (SendRateLimitedHTTPRequest env b n method path params result
            defaultValue))) \<noteq> []) =
         (RequestCount (admitWindow (lookupRateLimit b (method @ path)) (Unix env)) < n)"
proof (cases "RequestCount (admitWindow (lookupRateLimit b (method @ path)) (Unix env)) < n")
  case True
  then show ?thesis
    using assms
    by (simp add: SendRateLimitedHTTPRequest_def Let_def case_prod_beta admitWindow_def
        SendHTTPRequest_sent)
next
  case False
  then show ?thesis
    by (simp add: SendRateLimitedHTTPRequest_throttled)
qed

lemma setDefault_cases:
  "(\<forall>rt rv dt dv.
      result = Pointer rt rv \<and> (defaultValue = Value dt dv \<or> defaultValue = Pointer dt dv) \<and>
      AssignableTo env dt rt \<longrightarrow>
      setDefault env result defaultValue = (Return None, Pointer rt dv)) \<and>
   ((\<forall>rt rv. result \<noteq> Pointer rt rv) \<longrightarrow>
      setDefault env result defaultValue =
        (Return (Some ''result must be a non-nil pointer''), result)) \<and>
   (\<forall>rt rv. result = Pointer rt rv \<and> defaultValue = NilInterface \<longrightarrow>
      setDefault env result defaultValue =
        (Return (Some ''default value must be not be nil''), result)) \<and>
   (\<forall>rt rv dt. result = Pointer rt rv \<and> defaultValue = NilPointer dt \<longrightarrow>
      setDefault env result defaultValue = (Panic, result)) \<and>
   (\<forall>rt rv dt dv.
      result = Pointer rt rv \<and> (defaultValue = Value dt dv \<or> defaultValue = Pointer dt dv) \<and>
      \<not> AssignableTo env dt rt \<longrightarrow>
      setDefault env result defaultValue = (Panic, result))"
  by (auto simp add: setDefault_def split: iface.splits)

lemma SendRateLimitedHTTPRequests_Cons:
  "SendRateLimitedHTTPRequests b n method path (c # calls) =
   (let r = SendRateLimitedHTTPRequest (fst c) b n method path (fst (snd c))
              (fst (snd (snd c))) (snd (snd (snd c)));
        rest = SendRateLimitedHTTPRequests (fst (snd r)) n method path calls
    in (fst rest, (fst r, snd (snd r)) # snd rest))"
  by (cases c) (simp add: Let_def case_prod_beta)

lemma SendRateLimitedHTTPRequests_append:
  "SendRateLimitedHTTPRequests b n method path (xs @ ys) =
   (let (b', rs) = SendRateLimitedHTTPRequests b n method path xs;
        (b'', rs') = SendRateLimitedHTTPRequests b' n method path ys
    in (b'', rs @ rs'))"
  by (induction xs arbitrary: b)
    (simp_all add: SendRateLimitedHTTPRequests_Cons Let_def case_prod_beta)

lemma SendRateLimitedHTTPRequests_length:
  "length (snd (SendRateLimitedHTTPRequests b n method path calls)) = length calls"
  by (induction calls arbitrary: b)
    (simp_all add: SendRateLimitedHTTPRequests_Cons Let_def case_prod_beta)

lemma SendRateLimitedHTTPRequests_auth:
  "AuthenticatedAPISupport (fst (SendRateLimitedHTTPRequests b n method path calls)) =
   AuthenticatedAPISupport b"
  by (induction calls arbitrary: b)
    (simp_all add: SendRateLimitedHTTPRequests_Cons Let_def SendRateLimitedHTTPRequest_auth)

lemma windowAfter_0: "windowAfter b n method path calls 0 = lookupRateLimit b (method @ path)"
  by (simp add: windowAfter_def)

lemma windowAfter_Suc:
  assumes "i < length calls"
  shows "windowAfter b n method path calls (Suc i) =
    (let w = admitWindow (windowAfter b n method path calls i) (Unix (fst (calls ! i))) in
     if RequestCount w < n then w\<lparr>RequestCount := RequestCount w + 1\<rparr> else w)"
proof -
  have t: "take (Suc i) calls = take i calls @ [calls ! i]"
    using assms by (simp add: take_Suc_conv_app_nth)
  show ?thesis
    unfolding windowAfter_def t SendRateLimitedHTTPRequests_append
    by (simp add: Let_def case_prod_beta SendRateLimitedHTTPRequests_Cons
        SendRateLimitedHTTPRequest_window)
qed

lemma windowAfter_count:
  assumes "RequestCount (lookupRateLimit b (method @ path)) \<le> n"
  shows "i \<le> length calls \<Longrightarrow> RequestCount (windowAfter b n method path calls i) \<le> n"
proof (induction i)
  case 0
  then show ?case using assms by (simp add: windowAfter_0)
next
  case (Suc i)
  then have "RequestCount (windowAfter b n method path calls i) \<le> n" and "i < length calls"
    by simp_all
  then show ?case
    by (simp add: windowAfter_Suc Let_def admitWindow_def)
qed

lemma SendRateLimitedHTTPRequests_nth:
  assumes "i < length calls"
  shows "snd (SendRateLimitedHTTPRequests b n method path calls) ! i =
    (let c = calls ! i;
         r = SendRateLimitedHTTPRequest (fst c)
               (fst (SendRateLimitedHTTPRequests b n method path (take i calls))) n method path
               (fst (snd c)) (fst (snd (snd c))) (snd (snd (snd c)))
     in (fst r, snd (snd r)))"
proof -
  have split: "calls = take i calls @ calls ! i # drop (Suc i) calls"
    using assms by (simp add: id_take_nth_drop)
  have len: "length (snd (SendRateLimitedHTTPRequests b n method path (take i calls))) = i"
    using assms by (simp add: SendRateLimitedHTTPRequests_length)
  have "snd (SendRateLimitedHTTPRequests b n method path
          (take i calls @ calls ! i # drop (Suc i) calls)) ! i =
    (let c = calls ! i;
         r = SendRateLimitedHTTPRequest (fst c)
               (fst (SendRateLimitedHTTPRequests b n method path (take i calls))) n method path
               (fst (snd c)) (fst (snd (snd c))) (snd (snd (snd c)))
     in (fst r, snd (snd r)))"
    unfolding SendRateLimitedHTTPRequests_append
    by (simp add: Let_def case_prod_beta nth_append len SendRateLimitedHTTPRequests_Cons)
  then show ?thesis
    using split by simp
qed

lemma sent_nth:
  assumes "AuthenticatedAPISupport b" and "i < length calls"
  shows "(snd (snd (snd (SendRateLimitedHTTPRequests b n method path calls) ! i)) \<noteq> []) =
    (RequestCount (admitWindow (windowAfter b n method path calls i) (Unix (fst (calls ! i))))
       < n)"
proof -
  have "AuthenticatedAPISupport (fst (SendRateLimitedHTTPRequests b n method path (take i calls)))"
    using assms(1) by (simp add: SendRateLimitedHTTPRequests_auth)
  then show ?thesis
    by (simp add: SendRateLimitedHTTPRequests_nth [OF assms(2)] Let_def windowAfter_def
        SendRateLimitedHTTPRequest_sent)
qed

lemma throttled_nth:
  assumes "i < length calls"
    and "\<not> RequestCount (admitWindow (windowAfter b n method path calls i)
           (Unix (fst (calls ! i)))) < n"
  shows "snd (SendRateLimitedHTTPRequests b n method path calls) ! i =
    (fst (setDefault (fst (calls ! i)) (fst (snd (snd (calls ! i))))
       (snd (snd (snd (calls ! i))))),
     snd (setDefault (fst (calls ! i)) (fst (snd (snd (calls ! i))))
       (snd (snd (snd (calls ! i))))), [])"
  using assms(2)
  by (simp add: SendRateLimitedHTTPRequests_nth [OF assms(1)] Let_def windowAfter_def
      SendRateLimitedHTTPRequest_throttled)

lemma sint_diff_no_wrap:
  fixes now s :: "64 word"
  assumes "0 \<le> sint s" and "0 \<le> sint now"
  shows "sint (now - s) = sint now - sint s"
proof -
  have "sint s < 2 ^ 63" and "sint now < 2 ^ 63"
    using sint_lt [of s] sint_lt [of now] by simp_all
  then have "- (2 ^ 63) \<le> sint now - sint s" and "sint now - sint s < 2 ^ 63"
    using assms by simp_all
  then show ?thesis
    by (simp add: sint_word_diff signed_take_bit_int_eq_self)
qed

lemma restart_iff_elapsed:
  fixes now s :: "64 word"
  assumes "0 \<le> sint s" and "90 < sint now"
  shows "(s = 0 \<or> 90 < sint (now - s)) = (90 < sint now - sint s)"
proof (cases "s = 0")
  case True
  then show ?thesis using assms by simp
next
  case False
  then show ?thesis
    using assms by (simp add: sint_diff_no_wrap)
qed

lemma windowAfter_in_window:
  assumes first: "StartTime (lookupRateLimit b (method @ path)) = 0 \<or>
      90 < sint (Unix (fst (hd calls)) - StartTime (lookupRateLimit b (method @ path)))"
    and start: "Unix (fst (hd calls)) \<noteq> 0"
    and within: "\<forall>c \<in> set calls. sint (Unix (fst c) - Unix (fst (hd calls))) \<le> 90"
  shows "i < length calls \<Longrightarrow>
    windowAfter b n method path calls (Suc i) =
    \<lparr>StartTime = Unix (fst (hd calls)), RequestCount = min n (Suc i)\<rparr>"
proof (induction i)
  case 0
  then have hd: "calls ! 0 = hd calls"
    by (cases calls) auto
  show ?case
    using 0 first
    by (cases "lookupRateLimit b (method @ path)")
      (auto simp add: windowAfter_Suc windowAfter_0 hd admitWindow_def Let_def min_def)
next
  case (Suc i)
  then have IH: "windowAfter b n method path calls (Suc i) =
      \<lparr>StartTime = Unix (fst (hd calls)), RequestCount = min n (Suc i)\<rparr>"
    by simp
  have mem: "calls ! Suc i \<in> set calls"
    using Suc.prems by simp
  have w: "\<not> 90 < sint (Unix (fst (calls ! Suc i)) - Unix (fst (hd calls)))"
    using within mem by fastforce
  show ?case
    using Suc.prems w start
    by (simp add: windowAfter_Suc [of "Suc i"] IH admitWindow_def Let_def min_def)
qed

lemma count_in_window:
  assumes first: "StartTime (lookupRateLimit b (method @ path)) = 0 \<or>
      90 < sint (Unix (fst (hd calls)) - StartTime (lookupRateLimit b (method @ path)))"
    and start: "Unix (fst (hd calls)) \<noteq> 0"
    and within: "\<forall>c \<in> set calls. sint (Unix (fst c) - Unix (fst (hd calls))) \<le> 90"
    and i: "i < length calls"
  shows "RequestCount (admitWindow (windowAfter b n method path calls i)
           (Unix (fst (calls ! i)))) = min n i"
proof (cases i)
  case 0
  have hd: "calls ! 0 = hd calls"
    using i by (cases calls) auto
  show ?thesis
    using first by (auto simp add: 0 windowAfter_0 hd admitWindow_def)
next
  case (Suc j)
  have w: "windowAfter b n method path calls (Suc j) =
      \<lparr>StartTime = Unix (fst (hd calls)), RequestCount = min n (Suc j)\<rparr>"
    using windowAfter_in_window [OF first start within, of j] i Suc by simp
  have mem: "calls ! i \<in> set calls"
    using i by simp
  have "\<not> 90 < sint (Unix (fst (calls ! i)) - Unix (fst (hd calls)))"
    using within mem by fastforce
  then show ?thesis
    using start by (simp add: Suc [symmetric] w [unfolded Suc [symmetric]] admitWindow_def)
qed

lemma lookupRateLimit_exampleBinance:
  "lookupRateLimit exampleBinance key = \<lparr>StartTime = 0, RequestCount = 0\<rparr>"
  by (simp add: lookupRateLimit_def exampleBinance_def)

lemma lookupRateLimit_exhaustedBinance:
  "lookupRateLimit exhaustedBinance ''GETapi/v3/account'' =
   \<lparr>StartTime = 1499999990, RequestCount = 3\<rparr>"
  by (simp add: lookupRateLimit_def exhaustedBinance_def)

lemma AssignableTo_exampleEnv: "AssignableTo exampleEnv dt rt = (dt = rt)"
  by (simp add: exampleEnv_def)

lemma example_nth:
  "exampleCalls ! 0 = callAt 1500000000" "exampleCalls ! 2 = callAt 1500000020"
  "exampleCalls ! 3 = callAt 1500000030" "hd exampleCalls = callAt 1500000000"
  "length exampleCalls = 4"
  by (simp_all add: exampleCalls_def)

lemma callAt_sel:
  "Unix (fst (callAt now)) = now"
  "fst (snd (snd (callAt now))) = Pointer ''AccountInfo'' ''old''"
  "snd (snd (snd (callAt now))) = Value ''AccountInfo'' ''default''"
  "AssignableTo (fst (callAt now)) dt rt = (dt = rt)"
  by (simp_all add: callAt_def AssignableTo_exampleEnv)

text \<open>
  C3, as amended. For every sequence of calls to one endpoint with budget \<open>n\<close>, from a
  count of at most \<open>n\<close>: the count never exceeds \<open>n\<close>. Each call restarts the window
  (start now, count 0 before the call is counted) exactly when the start is 0 or the
  \<^verbatim>\<open>int64\<close> difference of the clock and the start exceeds 90, and otherwise leaves the start
  alone and counts the call if the budget allows, so that an exhausted window stays as it
  is; for a start that is not negative and a clock above 90 that condition is that more
  than 90 seconds have passed since the start. In a sequence whose first call restarts
  the window at a reading other than 0 and whose calls all differ from that reading by at
  most 90, call number \<open>i\<close> (from 0) sends a request exactly when \<open>i < n\<close>; a later call
  stores the default and returns no error when its result is a non-nil pointer and its
  default a value, or a non-nil pointer, of an assignable type, returns an error when its
  result is not a non-nil pointer or its default is nil, and panics in
  \<^verbatim>\<open>reflect.Value.Set\<close> for a nil pointer as default or a type that is not assignable.
\<close>

theorem rate_limit_window:
  assumes count0: "RequestCount (lookupRateLimit b (method @ path)) \<le> n"
  shows
    "(\<forall>i \<le> length calls. RequestCount (windowAfter b n method path calls i) \<le> n) \<and>
     (\<forall>i < length calls.
        (let w = windowAfter b n method path calls i; now = Unix (fst (calls ! i)) in
         windowAfter b n method path calls (Suc i) =
           (if StartTime w = 0 \<or> 90 < sint (now - StartTime w)
            then \<lparr>StartTime = now, RequestCount = min n 1\<rparr>
            else w\<lparr>RequestCount :=
                   if RequestCount w < n then RequestCount w + 1 else RequestCount w\<rparr>) \<and>
         (0 \<le> sint (StartTime w) \<and> 90 < sint now \<longrightarrow>
            (StartTime w = 0 \<or> 90 < sint (now - StartTime w)) =
            (90 < sint now - sint (StartTime w))))) \<and>
     (AuthenticatedAPISupport b \<and>
      (StartTime (lookupRateLimit b (method @ path)) = 0 \<or>
       90 < sint (Unix (fst (hd calls)) - StartTime (lookupRateLimit b (method @ path)))) \<and>
      Unix (fst (hd calls)) \<noteq> 0 \<and>
      (\<forall>c \<in> set calls. sint (Unix (fst c) - Unix (fst (hd calls))) \<le> 90) \<longrightarrow>
      (\<forall>i < length calls.
         (let env = fst (calls ! i); result = fst (snd (snd (calls ! i)));
              defaultValue = snd (snd (snd (calls ! i)));
              r = snd (SendRateLimitedHTTPRequests b n method path calls) ! i
          in
          (snd (snd r) \<noteq> []) = (i < n) \<and>
          (n \<le> i \<longrightarrow>
             (\<forall>rt rv dt dv.
                result = Pointer rt rv \<and>
                (defaultValue = Value dt dv \<or> defaultValue = Pointer dt dv) \<and>
                AssignableTo env dt rt \<longrightarrow>
                r = (Return None, Pointer rt dv, [])) \<and>
             ((\<forall>rt rv. result \<noteq> Pointer rt rv) \<longrightarrow>
                r = (Return (Some ''result must be a non-nil pointer''), result, [])) \<and>
             (\<forall>rt rv. result = Pointer rt rv \<and> defaultValue = NilInterface \<longrightarrow>
                r = (Return (Some ''default value must be not be nil''), result, [])) \<and>
             (\<forall>rt rv dt. result = Pointer rt rv \<and> defaultValue = NilPointer dt \<longrightarrow>
                r = (Panic, result, [])) \<and>
             (\<forall>rt rv dt dv.
                result = Pointer rt rv \<and>
                (defaultValue = Value dt dv \<or> defaultValue = Pointer dt dv) \<and>
                \<not> AssignableTo env dt rt \<longrightarrow>
                r = (Panic, result, []))))))"
proof (intro conjI)
  show "\<forall>i \<le> length calls. RequestCount (windowAfter b n method path calls i) \<le> n"
    using windowAfter_count [OF count0] by blast
next
  show "\<forall>i < length calls.
      (let w = windowAfter b n method path calls i; now = Unix (fst (calls ! i)) in
       windowAfter b n method path calls (Suc i) =
         (if StartTime w = 0 \<or> 90 < sint (now - StartTime w)
          then \<lparr>StartTime = now, RequestCount = min n 1\<rparr>
          else w\<lparr>RequestCount :=
                 if RequestCount w < n then RequestCount w + 1 else RequestCount w\<rparr>) \<and>
       (0 \<le> sint (StartTime w) \<and> 90 < sint now \<longrightarrow>
          (StartTime w = 0 \<or> 90 < sint (now - StartTime w)) =
          (90 < sint now - sint (StartTime w))))"
  proof (intro allI impI)
    fix i
    assume i: "i < length calls"
    let ?w = "windowAfter b n method path calls i"
    let ?now = "Unix (fst (calls ! i))"
    have step: "windowAfter b n method path calls (Suc i) =
        (if StartTime ?w = 0 \<or> 90 < sint (?now - StartTime ?w)
         then \<lparr>StartTime = ?now, RequestCount = min n 1\<rparr>
         else ?w\<lparr>RequestCount :=
                if RequestCount ?w < n then RequestCount ?w + 1 else RequestCount ?w\<rparr>)"
      by (cases ?w) (simp add: windowAfter_Suc [OF i] admitWindow_def Let_def min_def)
    have elapsed: "0 \<le> sint (StartTime ?w) \<and> 90 < sint ?now \<longrightarrow>
        (StartTime ?w = 0 \<or> 90 < sint (?now - StartTime ?w)) =
        (90 < sint ?now - sint (StartTime ?w))"
      using restart_iff_elapsed [of "StartTime ?w" ?now] by blast
    show "let w = ?w; now = ?now in
       windowAfter b n method path calls (Suc i) =
         (if StartTime w = 0 \<or> 90 < sint (now - StartTime w)
          then \<lparr>StartTime = now, RequestCount = min n 1\<rparr>
          else w\<lparr>RequestCount :=
                 if RequestCount w < n then RequestCount w + 1 else RequestCount w\<rparr>) \<and>
       (0 \<le> sint (StartTime w) \<and> 90 < sint now \<longrightarrow>
          (StartTime w = 0 \<or> 90 < sint (now - StartTime w)) =
          (90 < sint now - sint (StartTime w)))"
      unfolding Let_def using step elapsed by (rule conjI)
  qed
next
  show "AuthenticatedAPISupport b \<and>
      (StartTime (lookupRateLimit b (method @ path)) = 0 \<or>
       90 < sint (Unix (fst (hd calls)) - StartTime (lookupRateLimit b (method @ path)))) \<and>
      Unix (fst (hd calls)) \<noteq> 0 \<and>
      (\<forall>c \<in> set calls. sint (Unix (fst c) - Unix (fst (hd calls))) \<le> 90) \<longrightarrow>
      (\<forall>i < length calls.
         (let env = fst (calls ! i); result = fst (snd (snd (calls ! i)));
              defaultValue = snd (snd (snd (calls ! i)));
              r = snd (SendRateLimitedHTTPRequests b n method path calls) ! i
          in
          (snd (snd r) \<noteq> []) = (i < n) \<and>
          (n \<le> i \<longrightarrow>
             (\<forall>rt rv dt dv.
                result = Pointer rt rv \<and>
                (defaultValue = Value dt dv \<or> defaultValue = Pointer dt dv) \<and>
                AssignableTo env dt rt \<longrightarrow>
                r = (Return None, Pointer rt dv, [])) \<and>
             ((\<forall>rt rv. result \<noteq> Pointer rt rv) \<longrightarrow>
                r = (Return (Some ''result must be a non-nil pointer''), result, [])) \<and>
             (\<forall>rt rv. result = Pointer rt rv \<and> defaultValue = NilInterface \<longrightarrow>
                r = (Return (Some ''default value must be not be nil''), result, [])) \<and>
             (\<forall>rt rv dt. result = Pointer rt rv \<and> defaultValue = NilPointer dt \<longrightarrow>
                r = (Panic, result, [])) \<and>
             (\<forall>rt rv dt dv.
                result = Pointer rt rv \<and>
                (defaultValue = Value dt dv \<or> defaultValue = Pointer dt dv) \<and>
                \<not> AssignableTo env dt rt \<longrightarrow>
                r = (Panic, result, [])))))"
  proof (intro impI allI)
    fix i
    assume h: "AuthenticatedAPISupport b \<and>
      (StartTime (lookupRateLimit b (method @ path)) = 0 \<or>
       90 < sint (Unix (fst (hd calls)) - StartTime (lookupRateLimit b (method @ path)))) \<and>
      Unix (fst (hd calls)) \<noteq> 0 \<and>
      (\<forall>c \<in> set calls. sint (Unix (fst c) - Unix (fst (hd calls))) \<le> 90)"
      and i: "i < length calls"
    let ?env = "fst (calls ! i)"
    let ?result = "fst (snd (snd (calls ! i)))"
    let ?defaultValue = "snd (snd (snd (calls ! i)))"
    let ?r = "snd (SendRateLimitedHTTPRequests b n method path calls) ! i"
    from h have auth: "AuthenticatedAPISupport b"
      and first: "StartTime (lookupRateLimit b (method @ path)) = 0 \<or>
        90 < sint (Unix (fst (hd calls)) - StartTime (lookupRateLimit b (method @ path)))"
      and start: "Unix (fst (hd calls)) \<noteq> 0"
      and within: "\<forall>c \<in> set calls. sint (Unix (fst c) - Unix (fst (hd calls))) \<le> 90"
      by blast+
    have count: "RequestCount (admitWindow (windowAfter b n method path calls i)
        (Unix ?env)) = min n i"
      by (rule count_in_window [OF first start within i])
    have sent: "(snd (snd ?r) \<noteq> []) = (i < n)"
      by (simp add: sent_nth [OF auth i] count min_less_iff_disj)
    have throttled: "?r = (fst (setDefault ?env ?result ?defaultValue),
        snd (setDefault ?env ?result ?defaultValue), [])" if "n \<le> i"
      using that by (intro throttled_nth [OF i]) (simp add: count)
    note cases = setDefault_cases [of ?result ?defaultValue ?env]
    let ?C1 = "\<forall>rt rv dt dv.
        ?result = Pointer rt rv \<and>
        (?defaultValue = Value dt dv \<or> ?defaultValue = Pointer dt dv) \<and>
        AssignableTo ?env dt rt \<longrightarrow>
        ?r = (Return None, Pointer rt dv, [])"
    let ?C2 = "(\<forall>rt rv. ?result \<noteq> Pointer rt rv) \<longrightarrow>
        ?r = (Return (Some ''result must be a non-nil pointer''), ?result, [])"
    let ?C3 = "\<forall>rt rv. ?result = Pointer rt rv \<and> ?defaultValue = NilInterface \<longrightarrow>
        ?r = (Return (Some ''default value must be not be nil''), ?result, [])"
    let ?C4 = "\<forall>rt rv dt. ?result = Pointer rt rv \<and> ?defaultValue = NilPointer dt \<longrightarrow>
        ?r = (Panic, ?result, [])"
    let ?C5 = "\<forall>rt rv dt dv.
        ?result = Pointer rt rv \<and>
        (?defaultValue = Value dt dv \<or> ?defaultValue = Pointer dt dv) \<and>
        \<not> AssignableTo ?env dt rt \<longrightarrow>
        ?r = (Panic, ?result, [])"
    have rest: "n \<le> i \<longrightarrow> ?C1 \<and> ?C2 \<and> ?C3 \<and> ?C4 \<and> ?C5"
    proof (rule impI)
      assume n: "n \<le> i"
      have c1: ?C1
        using cases [THEN conjunct1] throttled [OF n] by fastforce
      have c2: ?C2
        using cases [THEN conjunct2, THEN conjunct1] throttled [OF n] by simp
      have c3: ?C3
        using cases [THEN conjunct2, THEN conjunct2, THEN conjunct1] throttled [OF n]
        by fastforce
      have c4: ?C4
        using cases [THEN conjunct2, THEN conjunct2, THEN conjunct2, THEN conjunct1]
          throttled [OF n]
        by fastforce
      have c5: ?C5
        using cases [THEN conjunct2, THEN conjunct2, THEN conjunct2, THEN conjunct2]
          throttled [OF n]
        by fastforce
      show "?C1 \<and> ?C2 \<and> ?C3 \<and> ?C4 \<and> ?C5"
        using c1 c2 c3 c4 c5 by (intro conjI)
    qed
    show "let env = ?env; result = ?result; defaultValue = ?defaultValue; r = ?r in
          (snd (snd r) \<noteq> []) = (i < n) \<and>
          (n \<le> i \<longrightarrow>
             (\<forall>rt rv dt dv.
                result = Pointer rt rv \<and>
                (defaultValue = Value dt dv \<or> defaultValue = Pointer dt dv) \<and>
                AssignableTo env dt rt \<longrightarrow>
                r = (Return None, Pointer rt dv, [])) \<and>
             ((\<forall>rt rv. result \<noteq> Pointer rt rv) \<longrightarrow>
                r = (Return (Some ''result must be a non-nil pointer''), result, [])) \<and>
             (\<forall>rt rv. result = Pointer rt rv \<and> defaultValue = NilInterface \<longrightarrow>
                r = (Return (Some ''default value must be not be nil''), result, [])) \<and>
             (\<forall>rt rv dt. result = Pointer rt rv \<and> defaultValue = NilPointer dt \<longrightarrow>
                r = (Panic, result, [])) \<and>
             (\<forall>rt rv dt dv.
                result = Pointer rt rv \<and>
                (defaultValue = Value dt dv \<or> defaultValue = Pointer dt dv) \<and>
                \<not> AssignableTo env dt rt \<longrightarrow>
                r = (Panic, result, [])))"
      unfolding Let_def by (rule conjI [OF sent rest])
  qed
qed

theorem rate_limit_window_witness:
  "snd (SendRateLimitedHTTPRequests exampleBinance 3 ''GET'' ''api/v3/account'' exampleCalls) ! 3 =
     (Return None, Pointer ''AccountInfo'' ''default'', []) \<and>
   snd (snd (snd (SendRateLimitedHTTPRequests exampleBinance 3 ''GET'' ''api/v3/account''
     exampleCalls) ! 2)) \<noteq> [] \<and>
   windowAfter exampleBinance 3 ''GET'' ''api/v3/account'' exampleCalls 1 =
     \<lparr>StartTime = 1500000000, RequestCount = 1\<rparr>"
proof -
  have h: "RequestCount (lookupRateLimit exampleBinance (''GET'' @ ''api/v3/account'')) \<le> 3"
    by (simp add: lookupRateLimit_exampleBinance)
  have auth: "AuthenticatedAPISupport exampleBinance"
    by (simp add: exampleBinance_def)
  have window: "AuthenticatedAPISupport exampleBinance \<and>
      (StartTime (lookupRateLimit exampleBinance (''GET'' @ ''api/v3/account'')) = 0 \<or>
       90 < sint (Unix (fst (hd exampleCalls)) -
         StartTime (lookupRateLimit exampleBinance (''GET'' @ ''api/v3/account'')))) \<and>
      Unix (fst (hd exampleCalls)) \<noteq> 0 \<and>
      (\<forall>c \<in> set exampleCalls. sint (Unix (fst c) - Unix (fst (hd exampleCalls))) \<le> 90)"
    using auth
    by (simp add: lookupRateLimit_exampleBinance example_nth callAt_sel)
      (simp add: exampleCalls_def callAt_sel)
  note t = rate_limit_window [OF h, of exampleCalls]
  have step: "windowAfter exampleBinance 3 ''GET'' ''api/v3/account'' exampleCalls (Suc 0) =
      \<lparr>StartTime = 1500000000, RequestCount = 1\<rparr>"
    using t [THEN conjunct2, THEN conjunct1, THEN spec, of 0]
    by (simp add: example_nth callAt_sel windowAfter_0 lookupRateLimit_exampleBinance Let_def)
  note in_window = t [THEN conjunct2, THEN conjunct2, THEN mp, OF window, unfolded Let_def]
  have third: "snd (snd (snd (SendRateLimitedHTTPRequests exampleBinance 3 ''GET''
      ''api/v3/account'' exampleCalls) ! 2)) \<noteq> []"
    using in_window [THEN spec, of 2] by (simp add: example_nth)
  have args: "fst (snd (snd (exampleCalls ! 3))) = Pointer ''AccountInfo'' ''old'' \<and>
      (snd (snd (snd (exampleCalls ! 3))) = Value ''AccountInfo'' ''default'' \<or>
       snd (snd (snd (exampleCalls ! 3))) = Pointer ''AccountInfo'' ''default'') \<and>
      AssignableTo (fst (exampleCalls ! 3)) ''AccountInfo'' ''AccountInfo''"
    by (simp add: example_nth callAt_sel)
  have "3 < length exampleCalls" and "(3 :: nat) \<le> 3"
    by (simp_all add: example_nth)
  then have fourth: "snd (SendRateLimitedHTTPRequests exampleBinance 3 ''GET'' ''api/v3/account''
      exampleCalls) ! 3 = (Return None, Pointer ''AccountInfo'' ''default'', [])"
    using in_window [THEN spec, of 3, THEN mp, THEN conjunct2, THEN mp, THEN conjunct1,
        THEN spec, THEN spec, THEN spec, THEN spec, THEN mp, OF _ _ args]
    by simp
  show ?thesis
    using step third fourth by simp
qed

text \<open>
  C3, as stated, fails three times. Within forty seconds and with budget 3, a fourth call
  whose result is not a pointer returns an error, not the default. With budget 1 and the
  clock reading 0, the second call of the same second restarts the window and sends a
  request. With budget 1, a window started at the least \<^verbatim>\<open>int64\<close> is not restarted by a call
  at 1500000000, although far more than 90 seconds lie between: the difference wraps, and
  the call returns the default.
\<close>

theorem rate_limit_window_counterexample:
  "snd (SendRateLimitedHTTPRequests exampleBinance 3 ''GET'' ''api/v3/account'' badCalls) ! 3 =
     (Return (Some ''result must be a non-nil pointer''), Value ''AccountInfo'' ''old'', []) \<and>
   snd (snd (snd (SendRateLimitedHTTPRequests exampleBinance 1 ''GET'' ''api/v3/account''
     epochCalls) ! 1)) \<noteq> [] \<and>
   snd (SendRateLimitedHTTPRequests exampleBinance 1 ''GET'' ''api/v3/account'' wrapCalls) ! 1 =
     (Return None, Pointer ''AccountInfo'' ''default'', [])"
proof -
  have auth: "AuthenticatedAPISupport exampleBinance"
    by (simp add: exampleBinance_def)
  have bad: "length badCalls = 4" "hd badCalls = callAt 1500000000"
    "badCalls ! 3 = (exampleEnv\<lparr>Unix := 1500000030\<rparr>, [], Value ''AccountInfo'' ''old'',
       Value ''AccountInfo'' ''default'')"
    by (simp_all add: badCalls_def)
  have "RequestCount (admitWindow (windowAfter exampleBinance 3 ''GET'' ''api/v3/account''
      badCalls 3) (Unix (fst (badCalls ! 3)))) = min 3 3"
    by (rule count_in_window)
      (simp_all add: lookupRateLimit_exampleBinance bad callAt_sel, simp add: badCalls_def callAt_sel)
  then have a: "snd (SendRateLimitedHTTPRequests exampleBinance 3 ''GET'' ''api/v3/account''
      badCalls) ! 3 =
    (Return (Some ''result must be a non-nil pointer''), Value ''AccountInfo'' ''old'', [])"
    by (simp add: throttled_nth bad setDefault_def)
  have epoch: "length epochCalls = 2" "epochCalls ! 0 = callAt 0" "epochCalls ! 1 = callAt 0"
    by (simp_all add: epochCalls_def)
  have "windowAfter exampleBinance 1 ''GET'' ''api/v3/account'' epochCalls (Suc 0) =
      \<lparr>StartTime = 0, RequestCount = 1\<rparr>"
    by (simp add: windowAfter_Suc windowAfter_0 epoch callAt_sel lookupRateLimit_exampleBinance
        admitWindow_def)
  then have b: "snd (snd (snd (SendRateLimitedHTTPRequests exampleBinance 1 ''GET''
      ''api/v3/account'' epochCalls) ! 1)) \<noteq> []"
    by (simp add: sent_nth [OF auth] epoch callAt_sel admitWindow_def)
  have wrap: "length wrapCalls = 2" "wrapCalls ! 0 = callAt (- 9223372036854775808)"
    "wrapCalls ! 1 = callAt 1500000000" "wrapCalls ! Suc 0 = callAt 1500000000"
    by (simp_all add: wrapCalls_def)
  have "windowAfter exampleBinance 1 ''GET'' ''api/v3/account'' wrapCalls (Suc 0) =
      \<lparr>StartTime = - 9223372036854775808, RequestCount = 1\<rparr>"
    by (simp add: windowAfter_Suc windowAfter_0 wrap callAt_sel lookupRateLimit_exampleBinance
        admitWindow_def)
  then have full: "\<not> RequestCount (admitWindow (windowAfter exampleBinance 1 ''GET''
      ''api/v3/account'' wrapCalls 1) (Unix (fst (wrapCalls ! 1)))) < 1"
    by (simp add: wrap callAt_sel admitWindow_def)
  have "1 < length wrapCalls"
    by (simp add: wrap)
  then have c: "snd (SendRateLimitedHTTPRequests exampleBinance 1 ''GET'' ''api/v3/account''
      wrapCalls) ! 1 = (Return None, Pointer ''AccountInfo'' ''default'', [])"
    using throttled_nth [OF _ full] by (simp add: wrap callAt_sel setDefault_def)
  show ?thesis
    using a b c by (intro conjI)
qed

text \<open>
  C2, as amended. When the count of the endpoint's window, after the check for expiry,
  has reached the budget, the call sends no request and stores the window the check left
  (the client is unchanged where the window had started and not expired). With a non-nil
  pointer as result and a default that is a value, or a non-nil pointer, of an assignable
  type, it stores the default in the result and returns no error. With a result that is
  not a non-nil pointer it returns one error, with a non-nil pointer as result and the nil
  interface as default another. With a nil pointer as default, or a default whose type is
  not assignable, \<^verbatim>\<open>reflect.Value.Set\<close> panics.
\<close>

theorem SendRateLimitedHTTPRequest_exhausted:
  assumes "n \<le> (let w = lookupRateLimit b (method @ path) in
                 if StartTime w = 0 \<or> 90 < sint (Unix env - StartTime w) then 0
                 else RequestCount w)"
  shows "(let r = SendRateLimitedHTTPRequest env b n method path params result defaultValue;
              w = lookupRateLimit b (method @ path);
              b' = b\<lparr>rateLimits := (rateLimits b)(method @ path \<mapsto>
                     (if StartTime w = 0 \<or> 90 < sint (Unix env - StartTime w)
                      then \<lparr>StartTime = Unix env, RequestCount = 0\<rparr> else w))\<rparr>
          in
          snd (snd (snd r)) = [] \<and> fst (snd r) = b' \<and>
          (StartTime w \<noteq> 0 \<and> sint (Unix env - StartTime w) \<le> 90 \<longrightarrow> b' = b) \<and>
          (\<forall>rt rv dt dv.
             result = Pointer rt rv \<and>
             (defaultValue = Value dt dv \<or> defaultValue = Pointer dt dv) \<and>
             AssignableTo env dt rt \<longrightarrow>
             r = (Return None, b', Pointer rt dv, [])) \<and>
          ((\<forall>rt rv. result \<noteq> Pointer rt rv) \<longrightarrow>
             r = (Return (Some ''result must be a non-nil pointer''), b', result, [])) \<and>
          (\<forall>rt rv. result = Pointer rt rv \<and> defaultValue = NilInterface \<longrightarrow>
             r = (Return (Some ''default value must be not be nil''), b', result, [])) \<and>
          (\<forall>rt rv dt. result = Pointer rt rv \<and> defaultValue = NilPointer dt \<longrightarrow>
             r = (Panic, b', result, [])) \<and>
          (\<forall>rt rv dt dv.
             result = Pointer rt rv \<and>
             (defaultValue = Value dt dv \<or> defaultValue = Pointer dt dv) \<and>
             \<not> AssignableTo env dt rt \<longrightarrow>
             r = (Panic, b', result, [])))"
proof -
  let ?w = "lookupRateLimit b (method @ path)"
  let ?b' = "b\<lparr>rateLimits := (rateLimits b)(method @ path \<mapsto>
      (if StartTime ?w = 0 \<or> 90 < sint (Unix env - StartTime ?w)
       then \<lparr>StartTime = Unix env, RequestCount = 0\<rparr> else ?w))\<rparr>"
  let ?r = "SendRateLimitedHTTPRequest env b n method path params result defaultValue"
  have w: "admitWindow ?w (Unix env) =
      (if StartTime ?w = 0 \<or> 90 < sint (Unix env - StartTime ?w)
       then \<lparr>StartTime = Unix env, RequestCount = 0\<rparr> else ?w)"
    by (cases ?w) (simp add: admitWindow_def)
  have full: "\<not> RequestCount (admitWindow ?w (Unix env)) < n"
    using assms by (simp add: w Let_def split: if_splits)
  have r: "?r = (fst (setDefault env result defaultValue), ?b',
      snd (setDefault env result defaultValue), [])"
    using SendRateLimitedHTTPRequest_throttled [OF full, of params result defaultValue]
    by (simp only: w)
  have same: "StartTime ?w \<noteq> 0 \<and> sint (Unix env - StartTime ?w) \<le> 90 \<longrightarrow> ?b' = b"
    by (auto simp add: lookupRateLimit_def map_upd_triv split: option.splits)
  note cases = setDefault_cases [of result defaultValue env]
  have sent: "snd (snd (snd ?r)) = []" and state: "fst (snd ?r) = ?b'"
    by (simp_all only: r fst_conv snd_conv)
  have c1: "\<forall>rt rv dt dv.
      result = Pointer rt rv \<and> (defaultValue = Value dt dv \<or> defaultValue = Pointer dt dv) \<and>
      AssignableTo env dt rt \<longrightarrow>
      ?r = (Return None, ?b', Pointer rt dv, [])"
    using cases [THEN conjunct1] r by fastforce
  have c2: "(\<forall>rt rv. result \<noteq> Pointer rt rv) \<longrightarrow>
      ?r = (Return (Some ''result must be a non-nil pointer''), ?b', result, [])"
    using cases [THEN conjunct2, THEN conjunct1] r by simp
  have c3: "\<forall>rt rv. result = Pointer rt rv \<and> defaultValue = NilInterface \<longrightarrow>
      ?r = (Return (Some ''default value must be not be nil''), ?b', result, [])"
    using cases [THEN conjunct2, THEN conjunct2, THEN conjunct1] r by fastforce
  have c4: "\<forall>rt rv dt. result = Pointer rt rv \<and> defaultValue = NilPointer dt \<longrightarrow>
      ?r = (Panic, ?b', result, [])"
    using cases [THEN conjunct2, THEN conjunct2, THEN conjunct2, THEN conjunct1] r
    by fastforce
  have c5: "\<forall>rt rv dt dv.
      result = Pointer rt rv \<and> (defaultValue = Value dt dv \<or> defaultValue = Pointer dt dv) \<and>
      \<not> AssignableTo env dt rt \<longrightarrow>
      ?r = (Panic, ?b', result, [])"
    using cases [THEN conjunct2, THEN conjunct2, THEN conjunct2, THEN conjunct2] r
    by fastforce
  show ?thesis
    unfolding Let_def using sent state same c1 c2 c3 c4 c5 by (intro conjI)
qed

theorem SendRateLimitedHTTPRequest_exhausted_witness:
  "SendRateLimitedHTTPRequest (exampleEnv\<lparr>Unix := 1500000000\<rparr>) exhaustedBinance 3 ''GET''
     ''api/v3/account'' [] (Pointer ''AccountInfo'' ''old'') (Value ''AccountInfo'' ''default'') =
   (Return None, exhaustedBinance, Pointer ''AccountInfo'' ''default'', []) \<and>
   SendRateLimitedHTTPRequest (exampleEnv\<lparr>Unix := 1500000000\<rparr>) exampleBinance 0 ''GET''
     ''api/v3/account'' [] (Pointer ''AccountInfo'' ''old'') (Value ''AccountInfo'' ''default'') =
   (Return None,
    exampleBinance\<lparr>rateLimits :=
      [''GETapi/v3/account'' \<mapsto> \<lparr>StartTime = 1500000000, RequestCount = 0\<rparr>]\<rparr>,
    Pointer ''AccountInfo'' ''default'', [])"
proof -
  let ?env = "exampleEnv\<lparr>Unix := 1500000000\<rparr>"
  have h1: "3 \<le> (let w = lookupRateLimit exhaustedBinance (''GET'' @ ''api/v3/account'') in
      if StartTime w = 0 \<or> 90 < sint (Unix ?env - StartTime w) then 0 else RequestCount w)"
    by (simp add: lookupRateLimit_exhaustedBinance)
  have h2: "0 \<le> (let w = lookupRateLimit exampleBinance (''GET'' @ ''api/v3/account'') in
      if StartTime w = 0 \<or> 90 < sint (Unix ?env - StartTime w) then 0 else RequestCount w)"
    by simp
  have args: "Pointer ''AccountInfo'' ''old'' = Pointer ''AccountInfo'' ''old'' \<and>
      (Value ''AccountInfo'' ''default'' = Value ''AccountInfo'' ''default'' \<or>
       Value ''AccountInfo'' ''default'' = Pointer ''AccountInfo'' ''default'') \<and>
      AssignableTo ?env ''AccountInfo'' ''AccountInfo''"
    by (simp add: AssignableTo_exampleEnv)
  have unexpired:
    "StartTime (lookupRateLimit exhaustedBinance (''GET'' @ ''api/v3/account'')) \<noteq> 0 \<and>
     sint (Unix ?env - StartTime (lookupRateLimit exhaustedBinance (''GET'' @ ''api/v3/account'')))
       \<le> 90"
    by (simp add: lookupRateLimit_exhaustedBinance)
  note t1 = SendRateLimitedHTTPRequest_exhausted [OF h1, of "[]" "Pointer ''AccountInfo'' ''old''"
      "Value ''AccountInfo'' ''default''", unfolded Let_def]
  note t2 = SendRateLimitedHTTPRequest_exhausted [OF h2, of "[]" "Pointer ''AccountInfo'' ''old''"
      "Value ''AccountInfo'' ''default''", unfolded Let_def]
  have first: "SendRateLimitedHTTPRequest ?env exhaustedBinance 3 ''GET'' ''api/v3/account'' []
      (Pointer ''AccountInfo'' ''old'') (Value ''AccountInfo'' ''default'') =
    (Return None, exhaustedBinance, Pointer ''AccountInfo'' ''default'', [])"
    using t1 [THEN conjunct2, THEN conjunct2, THEN conjunct2, THEN conjunct1, THEN spec,
        THEN spec, THEN spec, THEN spec, THEN mp, OF args]
      t1 [THEN conjunct2, THEN conjunct2, THEN conjunct1, THEN mp, OF unexpired]
    by simp
  have second: "SendRateLimitedHTTPRequest ?env exampleBinance 0 ''GET'' ''api/v3/account'' []
      (Pointer ''AccountInfo'' ''old'') (Value ''AccountInfo'' ''default'') =
    (Return None,
     exampleBinance\<lparr>rateLimits :=
       [''GETapi/v3/account'' \<mapsto> \<lparr>StartTime = 1500000000, RequestCount = 0\<rparr>]\<rparr>,
     Pointer ''AccountInfo'' ''default'', [])"
    using t2 [THEN conjunct2, THEN conjunct2, THEN conjunct2, THEN conjunct1, THEN spec,
        THEN spec, THEN spec, THEN spec, THEN mp, OF args]
    by (simp add: lookupRateLimit_exampleBinance) (simp add: exampleBinance_def)
  show ?thesis
    using first second by (rule conjI)
qed

text \<open>
  C2, as stated, fails: the budget is exhausted and the window unexpired, yet the call
  returns an error, once for a result that is not a pointer and once for a nil default.
\<close>

theorem SendRateLimitedHTTPRequest_exhausted_counterexample:
  "fst (SendRateLimitedHTTPRequest (exampleEnv\<lparr>Unix := 1500000000\<rparr>) exhaustedBinance 3 ''GET''
         ''api/v3/account'' [] (Value ''AccountInfo'' ''old'') (Value ''AccountInfo'' ''default'')) =
     Return (Some ''result must be a non-nil pointer'') \<and>
   fst (SendRateLimitedHTTPRequest (exampleEnv\<lparr>Unix := 1500000000\<rparr>) exhaustedBinance 3 ''GET''
         ''api/v3/account'' [] (Pointer ''AccountInfo'' ''old'') NilInterface) =
     Return (Some ''default value must be not be nil'')"
  by (simp add: SendRateLimitedHTTPRequest_def exhaustedBinance_def exampleBinance_def
      exampleEnv_def lookupRateLimit_def Let_def)

end
